theory Spec2Isabelle
  imports Main
begin

section \<open>Python exceptions\<close>

text \<open>
  An exception is its class and its message (what \<open>str(e)\<close> returns). The handlers
  distinguish two \<open>except\<close> clauses: \<open>except RuntimeError\<close> and \<open>except Exception\<close>.
  \<open>KeyboardInterrupt\<close> stands for the classes that derive from \<open>BaseException\<close> only.
\<close>

datatype exn_class = RuntimeError | ValueError | TypeError | IndexError | KeyboardInterrupt

type_synonym pyexn = "exn_class \<times> string"

definition isinstance_RuntimeError :: "pyexn \<Rightarrow> bool" where
  "isinstance_RuntimeError e = (fst e = RuntimeError)"

definition isinstance_Exception :: "pyexn \<Rightarrow> bool" where
  "isinstance_Exception e = (fst e \<noteq> KeyboardInterrupt)"

definition str_exn :: "pyexn \<Rightarrow> string" where
  "str_exn e = snd e"

section \<open>Host commands\<close>

text \<open>The callbacks that the user interface binds to buttons and menu items.\<close>

datatype handler =
    Create_camera | Delete_camera | Rename_camera | Toggle_lock_camera
  | Export_cameras | Import_cameras | Set_renderable_camera | Duplicate_camera
  | Show_camera_info

text \<open>
  The \<open>maya.cmds\<close> calls that build the window, with the arguments that vary in the
  source; constant keyword arguments are part of the constructor's meaning.
\<close>

datatype ui_cmd =
    Window_exists string
  | PopupMenu_exists string
  | ShelfLayout_exists string
  | DeleteUI string
  | Window string string nat nat
  | ColumnLayout "nat option"
  | FrameLayout string nat
  | Image_control string nat
  | SetParent string
  | TextScrollList_create string nat
  | PopupMenu string string nat
  | MenuItem string handler
  | Button string handler
  | Separator string nat
  | Text_label string string
  | ShowWindow string
  | ShelfButton string string string string string
  | Print string

text \<open>
  The \<open>maya.cmds\<close> calls of the handlers. \<open>TextScrollList_*\<close> address the control
  \<open>"cameraList"\<close>; \<open>ConfirmDialog title message button defaultButton cancelButton icon\<close>;
  \<open>FileDialog2 fileMode caption\<close>.
\<close>

datatype cmd =
    Ls_camera
  | ListRelatives_parent string
  | ListRelatives_shapes string
  | TextScrollList_removeAll
  | TextScrollList_append string
  | TextScrollList_selectItem
  | Camera
  | ConfirmDialog string string "string list" "string option" "string option" string
  | PromptDialog_rename
  | PromptDialog_text
  | FileDialog2 nat string
  | ObjExists string
  | Delete string
  | Rename string string
  | Duplicate string
  | GetAttr_lock string
  | SetAttr_lock string bool
  | GetAttr string
  | SetAttr string int
  | Select_replace "string list"
  | File_exportSelected string
  | File_import string
  | Warning string
  | InViewMessage string
  | Build ui_cmd

text \<open>
  One entry of the trace of a run: the command issued and, when it raised, the
  exception.
\<close>

type_synonym event = "cmd \<times> pyexn option"

text \<open>
  An attribute value read with \<open>getAttr\<close>, as the program uses it: its \<open>str()\<close> text
  (in an f-string) and its truth value.
\<close>

record attrval =
  py_str :: string
  py_bool :: bool

text \<open>
  The host application is a parameter: for every command, what it returns or raises in
  a host state \<open>'w\<close> and the host state after it. There is one runner per result type:
  nothing used (\<open>run_unit\<close>), a string, a boolean, a list of names or \<open>None\<close>, and an
  attribute value.
\<close>

record 'w host =
  run_unit :: "cmd \<Rightarrow> 'w \<Rightarrow> (pyexn + unit) \<times> 'w"
  run_str :: "cmd \<Rightarrow> 'w \<Rightarrow> (pyexn + string) \<times> 'w"
  run_bool :: "cmd \<Rightarrow> 'w \<Rightarrow> (pyexn + bool) \<times> 'w"
  run_list :: "cmd \<Rightarrow> 'w \<Rightarrow> (pyexn + string list option) \<times> 'w"
  run_attr :: "cmd \<Rightarrow> 'w \<Rightarrow> (pyexn + attrval) \<times> 'w"

section \<open>Program state and control flow\<close>

text \<open>The module-level bindings of the program other than its functions and imports.\<close>

record module_state =
  IMG_PATH :: string

record 'w pstate =
  globals :: module_state
  world :: 'w

text \<open>
  A piece of Python code: from the state before it to what it returns (\<open>Inr\<close>) or
  raises (\<open>Inl\<close>), the state after it and the host commands it issued, in order.
\<close>

type_synonym ('w, 'a) prog = "'w pstate \<Rightarrow> (pyexn + 'a) \<times> 'w pstate \<times> event list"

definition py_return :: "'a \<Rightarrow> ('w, 'a) prog" where
  "py_return a = (\<lambda>s. (Inr a, s, []))"

definition py_raise :: "pyexn \<Rightarrow> ('w, 'a) prog" where
  "py_raise e = (\<lambda>s. (Inl e, s, []))"

definition py_bind :: "('w, 'a) prog \<Rightarrow> ('a \<Rightarrow> ('w, 'b) prog) \<Rightarrow> ('w, 'b) prog" where
  "py_bind m k = (\<lambda>s.
     case m s of
       (Inl e, s1, t1) \<Rightarrow> (Inl e, s1, t1)
     | (Inr a, s1, t1) \<Rightarrow> (case k a s1 of (r, s2, t2) \<Rightarrow> (r, s2, t1 @ t2)))"

definition py_outcome :: "pyexn + 'a \<Rightarrow> pyexn option" where
  "py_outcome r = (case r of Inl e \<Rightarrow> Some e | Inr _ \<Rightarrow> None)"

definition call :: "(cmd \<Rightarrow> 'w \<Rightarrow> (pyexn + 'a) \<times> 'w) \<Rightarrow> cmd \<Rightarrow> ('w, 'a) prog" where
  "call run c = (\<lambda>s.
     case run c (world s) of (r, w') \<Rightarrow> (r, s\<lparr>world := w'\<rparr>, [(c, py_outcome r)]))"

text \<open>\<open>try: body except <class> as e: on_error e\<close>\<close>

definition py_try ::
  "('w, 'a) prog \<Rightarrow> (pyexn \<Rightarrow> bool) \<Rightarrow> (pyexn \<Rightarrow> ('w, 'a) prog) \<Rightarrow> ('w, 'a) prog" where
  "py_try body catches on_error = (\<lambda>s.
     case body s of
       (Inl e, s1, t1) \<Rightarrow>
         (if catches e then (case on_error e s1 of (r, s2, t2) \<Rightarrow> (r, s2, t1 @ t2))
          else (Inl e, s1, t1))
     | (Inr a, s1, t1) \<Rightarrow> (Inr a, s1, t1))"

text \<open>\<open>for x in xs: body x\<close>\<close>

fun py_for :: "'b list \<Rightarrow> ('b \<Rightarrow> ('w, unit) prog) \<Rightarrow> ('w, unit) prog" where
  "py_for [] body = py_return ()"
| "py_for (x # xs) body = py_bind (body x) (\<lambda>_. py_for xs body)"

text \<open>\<open>[f x for x in xs]\<close>\<close>

fun py_listcomp :: "'b list \<Rightarrow> ('b \<Rightarrow> ('w, 'c) prog) \<Rightarrow> ('w, 'c list) prog" where
  "py_listcomp [] f = py_return []"
| "py_listcomp (x # xs) f =
     py_bind (f x) (\<lambda>y. py_bind (py_listcomp xs f) (\<lambda>ys. py_return (y # ys)))"

text \<open>Iterating over, and indexing, a command result that is a list or \<open>None\<close>.\<close>

definition NoneType_object :: string where
  "NoneType_object = [CHR 0x27] @ ''NoneType'' @ [CHR 0x27] @ '' object''"

definition py_iter :: "'b list option \<Rightarrow> ('w, 'b list) prog" where
  "py_iter v = (case v of
     None \<Rightarrow> py_raise (TypeError, NoneType_object @ '' is not iterable'')
   | Some xs \<Rightarrow> py_return xs)"

definition subscript0 :: "'b list option \<Rightarrow> ('w, 'b) prog" where
  "subscript0 v = (case v of
     None \<Rightarrow> py_raise (TypeError, NoneType_object @ '' is not subscriptable'')
   | Some [] \<Rightarrow> py_raise (IndexError, ''list index out of range'')
   | Some (x # _) \<Rightarrow> py_return x)"

text \<open>\<open>sep.join(xs)\<close>\<close>

fun join :: "string \<Rightarrow> string list \<Rightarrow> string" where
  "join sep [] = []"
| "join sep [x] = x"
| "join sep (x # y # ys) = x @ sep @ join sep (y # ys)"

text \<open>\<open>os.path.join(a, b)\<close> of \<open>posixpath\<close>.\<close>

definition os_path_join :: "string \<Rightarrow> string \<Rightarrow> string" where
  "os_path_join a b =
     (if b \<noteq> [] \<and> hd b = CHR ''/'' then b
      else if a = [] \<or> last a = CHR ''/'' then a @ b
      else a @ ''/'' @ b)"

definition apostrophe :: string where
  "apostrophe = [CHR 0x27]"

definition newline :: string where
  "newline = [CHR 0x0A]"

definition py_seq :: "('w, 'a) prog \<Rightarrow> ('w, 'b) prog \<Rightarrow> ('w, 'b) prog" where
  "py_seq m k = py_bind m (\<lambda>_. k)"

text \<open>Reading a module-level name.\<close>

definition py_global :: "(module_state \<Rightarrow> 'a) \<Rightarrow> ('w, 'a) prog" where
  "py_global f = (\<lambda>s. (Inr (f (globals s)), s, []))"

section \<open>The handlers\<close>

text \<open>
  Each function of the source, statement by statement. A test \<open>if selected\<close> on a
  list-or-\<open>None\<close> result followed by \<open>selected[0]\<close> is a \<^theory_text>\<open>case\<close> with the pattern
  \<open>Some (x # xs)\<close>: \<open>None\<close> and the empty list are the falsy values.
\<close>

definition list_cameras :: "'w host \<Rightarrow> ('w, unit) prog" where
  "list_cameras h =
     py_bind (call (run_list h) Ls_camera) (\<lambda>cameras.
     py_seq (call (run_unit h) TextScrollList_removeAll) (
     py_bind (py_iter cameras) (\<lambda>shapes.
     py_bind (py_listcomp shapes (\<lambda>c.
                py_bind (call (run_list h) (ListRelatives_parent c)) subscript0)) (\<lambda>cameras'.
     py_for cameras' (\<lambda>cam. call (run_unit h) (TextScrollList_append cam))))))"

definition create_camera :: "'w host \<Rightarrow> ('w, unit) prog" where
  "create_camera h = py_seq (call (run_unit h) Camera) (list_cameras h)"

text \<open>\<open>cmds.confirmDialog(title="Error", message=str(e), button=["OK"], icon="critical")\<close>\<close>

definition error_dialog_cmd :: "pyexn \<Rightarrow> cmd" where
  "error_dialog_cmd e = ConfirmDialog ''Error'' (str_exn e) [''OK''] None None ''critical''"

definition error_dialog :: "'w host \<Rightarrow> pyexn \<Rightarrow> ('w, unit) prog" where
  "error_dialog h e = py_seq (call (run_str h) (error_dialog_cmd e)) (py_return ())"

definition delete_camera :: "'w host \<Rightarrow> ('w, unit) prog" where
  "delete_camera h =
     py_bind (call (run_list h) TextScrollList_selectItem) (\<lambda>selected.
       case selected of
         Some (sel0 # rest) \<Rightarrow>
           py_bind (call (run_str h)
               (ConfirmDialog ''Delete Camera?''
                  (''Are you sure you want to delete camera: '' @ sel0 @ ''?'')
                  [''Yes'', ''No''] (Some ''No'') (Some ''No'') ''warning'')) (\<lambda>confirm.
             if confirm = ''Yes'' then
               py_try (py_seq (call (run_unit h) (Delete sel0)) (list_cameras h))
                 isinstance_RuntimeError (error_dialog h)
             else py_return ())
       | _ \<Rightarrow> py_return ())"

definition rename_camera :: "'w host \<Rightarrow> ('w, unit) prog" where
  "rename_camera h =
     py_bind (call (run_list h) TextScrollList_selectItem) (\<lambda>selected.
       case selected of
         Some (sel0 # rest) \<Rightarrow>
           py_bind (call (run_str h) PromptDialog_rename) (\<lambda>result.
             if result = ''OK'' then
               py_bind (call (run_str h) PromptDialog_text) (\<lambda>new_name.
               py_bind (call (run_bool h) (ObjExists new_name)) (\<lambda>exists.
                 if exists then
                   py_seq (call (run_str h)
                       (ConfirmDialog ''Error''
                          (''A camera named '' @ apostrophe @ new_name @ apostrophe
                             @ '' already exists.'')
                          [''OK''] None None ''critical''))
                     (py_return ())
                 else
                   py_try (py_seq (call (run_str h) (Rename sel0 new_name)) (list_cameras h))
                     isinstance_RuntimeError (error_dialog h)))
             else py_return ())
       | _ \<Rightarrow> py_return ())"

definition toggle_lock_camera :: "'w host \<Rightarrow> ('w, unit) prog" where
  "toggle_lock_camera h =
     py_bind (call (run_list h) TextScrollList_selectItem) (\<lambda>selected.
       case selected of
         Some (cam # rest) \<Rightarrow>
           py_try
             (py_bind (call (run_bool h) (GetAttr_lock (cam @ ''.translateX''))) (\<lambda>locked.
              py_seq (py_for [''translate'', ''rotate'', ''scale''] (\<lambda>attr.
                        py_for [''X'', ''Y'', ''Z''] (\<lambda>axis.
                          call (run_unit h)
                            (SetAttr_lock (cam @ ''.'' @ attr @ axis) (\<not> locked)))))
                (call (run_unit h)
                   (InViewMessage (''Camera <hl>'' @ cam @ ''</hl> transforms ''
                      @ (if \<not> locked then ''locked'' else ''unlocked''))))))
             isinstance_Exception (error_dialog h)
       | _ \<Rightarrow> call (run_unit h) (Warning ''No camera selected.''))"

definition export_cameras :: "'w host \<Rightarrow> ('w, unit) prog" where
  "export_cameras h =
     py_bind (call (run_list h) TextScrollList_selectItem) (\<lambda>selected.
       case selected of
         Some (sel0 # rest) \<Rightarrow>
           py_bind (call (run_list h) (FileDialog2 0 ''Export Cameras'')) (\<lambda>file_path.
             case file_path of
               Some (path # _) \<Rightarrow>
                 py_try
                   (py_seq (call (run_unit h) (Select_replace (sel0 # rest))) (
                    py_seq (call (run_unit h) (File_exportSelected path)) (
                    call (run_unit h)
                      (InViewMessage (''Exported cameras: <hl>''
                         @ join '', '' (sel0 # rest) @ ''</hl>'')))))
                   isinstance_Exception (error_dialog h)
             | _ \<Rightarrow> py_return ())
       | _ \<Rightarrow> call (run_unit h) (Warning ''No cameras selected to export.''))"

definition import_cameras :: "'w host \<Rightarrow> ('w, unit) prog" where
  "import_cameras h =
     py_bind (call (run_list h) (FileDialog2 1 ''Import Cameras'')) (\<lambda>file_path.
       case file_path of
         Some (path # _) \<Rightarrow>
           py_try
             (py_seq (call (run_unit h) (File_import path)) (
              py_seq (list_cameras h) (
              call (run_unit h)
                (InViewMessage (''Imported cameras from <hl>'' @ path @ ''</hl>'')))))
             isinstance_Exception (error_dialog h)
       | _ \<Rightarrow> py_return ())"

definition set_renderable_camera :: "'w host \<Rightarrow> ('w, unit) prog" where
  "set_renderable_camera h =
     py_bind (call (run_list h) TextScrollList_selectItem) (\<lambda>selected.
       case selected of
         Some (cam # rest) \<Rightarrow>
           py_bind (call (run_list h) Ls_camera) (\<lambda>all_cams.
           py_bind (py_iter all_cams) (\<lambda>shapes.
           py_seq (py_for shapes (\<lambda>cam_shape.
                     py_try (call (run_unit h) (SetAttr (cam_shape @ ''.renderable'') 0))
                       isinstance_Exception (\<lambda>e. py_return ())))
             (py_try
               (py_bind (py_bind (call (run_list h) (ListRelatives_shapes cam)) subscript0)
                  (\<lambda>cam_shape.
                py_seq (call (run_unit h) (SetAttr (cam_shape @ ''.renderable'') 1)) (
                call (run_unit h)
                  (InViewMessage (''<hl>'' @ cam @ ''</hl> is now the renderable camera'')))))
               isinstance_Exception (error_dialog h))))
       | _ \<Rightarrow> call (run_unit h) (Warning ''No camera selected.''))"

definition duplicate_camera :: "'w host \<Rightarrow> ('w, unit) prog" where
  "duplicate_camera h =
     py_bind (call (run_list h) TextScrollList_selectItem) (\<lambda>selected.
       case selected of
         Some (cam # rest) \<Rightarrow>
           py_try
             (py_bind (py_bind (call (run_list h) (Duplicate cam)) subscript0) (\<lambda>new_cam.
              py_bind (call (run_str h) (Rename new_cam (cam @ ''_copy#''))) (\<lambda>new_name.
              py_seq (list_cameras h) (
              call (run_unit h)
                (InViewMessage (''Duplicated camera <hl>'' @ cam @ ''</hl> as <hl>''
                   @ new_name @ ''</hl>''))))))
             isinstance_Exception (error_dialog h)
       | _ \<Rightarrow> call (run_unit h) (Warning ''No camera selected.''))"

definition show_camera_info :: "'w host \<Rightarrow> ('w, unit) prog" where
  "show_camera_info h =
     py_bind (call (run_list h) TextScrollList_selectItem) (\<lambda>selected.
       case selected of
         Some (cam # rest) \<Rightarrow>
           py_try
             (py_bind (py_bind (call (run_list h) (ListRelatives_shapes cam)) subscript0)
                (\<lambda>cam_shape.
              py_bind (call (run_attr h) (GetAttr (cam_shape @ ''.focalLength''))) (\<lambda>focal_length.
              py_bind (call (run_attr h) (GetAttr (cam_shape @ ''.nearClipPlane''))) (\<lambda>near_clip.
              py_bind (call (run_attr h) (GetAttr (cam_shape @ ''.farClipPlane''))) (\<lambda>far_clip.
              py_bind (call (run_attr h) (GetAttr (cam_shape @ ''.renderable''))) (\<lambda>renderable.
              py_bind (call (run_attr h) (GetAttr (cam_shape @ ''.horizontalFilmAperture'')))
                (\<lambda>horizontal_ap.
              py_bind (call (run_attr h) (GetAttr (cam_shape @ ''.verticalFilmAperture'')))
                (\<lambda>vertical_ap.
              py_seq (call (run_str h)
                  (ConfirmDialog ''Camera Info''
                     (''Camera: '' @ cam @ newline
                      @ ''Focal Length: '' @ py_str focal_length @ '' mm'' @ newline
                      @ ''Near Clip: '' @ py_str near_clip @ newline
                      @ ''Far Clip: '' @ py_str far_clip @ newline
                      @ ''Renderable: '' @ (if py_bool renderable then ''Yes'' else ''No'')
                      @ newline
                      @ ''Film Aperture: '' @ py_str horizontal_ap @ '' x ''
                      @ py_str vertical_ap)
                     [''OK''] None None ''information''))
                (py_return ())))))))))
             isinstance_Exception (error_dialog h)
       | _ \<Rightarrow> call (run_unit h) (Warning ''No camera selected.''))"

definition add_camera_popup_menu :: "'w host \<Rightarrow> string \<Rightarrow> ('w, unit) prog" where
  "add_camera_popup_menu h scroll_list_name =
     py_bind (call (run_bool h) (Build (PopupMenu_exists ''camListMenu''))) (\<lambda>exists.
     py_seq (if exists then call (run_unit h) (Build (DeleteUI ''camListMenu''))
             else py_return ()) (
     py_seq (call (run_unit h) (Build (PopupMenu ''camListMenu'' scroll_list_name 3))) (
     py_seq (call (run_unit h) (Build (MenuItem ''Set as Renderable'' Set_renderable_camera))) (
     py_seq (call (run_unit h) (Build (MenuItem ''Duplicate Camera'' Duplicate_camera))) (
     call (run_unit h) (Build (MenuItem ''Show Camera Info'' Show_camera_info)))))))"

definition cam_manager_ui :: "'w host \<Rightarrow> ('w, unit) prog" where
  "cam_manager_ui h =
     py_bind (call (run_bool h) (Build (Window_exists ''cam_manager''))) (\<lambda>exists.
     py_seq (if exists then call (run_unit h) (Build (DeleteUI ''cam_manager''))
             else py_return ()) (
     py_seq (call (run_unit h) (Build (Window ''cam_manager'' ''Camera Manager'' 300 900))) (
     py_seq (call (run_unit h) (Build (ColumnLayout (Some 10)))) (
     py_seq (call (run_unit h) (Build (FrameLayout ''Camera Manager'' 5))) (
     py_seq (call (run_unit h) (Build (ColumnLayout None))) (
     py_bind (py_global IMG_PATH) (\<lambda>img_path.
     py_seq (call (run_unit h)
               (Build (Image_control (os_path_join img_path ''main_camera_image.jpeg'') 100))) (
     py_seq (call (run_unit h) (Build (SetParent ''..''))) (
     py_seq (call (run_unit h) (Build (FrameLayout ''Cameras'' 5))) (
     py_seq (call (run_unit h) (Build (ColumnLayout None))) (
     py_seq (call (run_unit h) (Build (TextScrollList_create ''cameraList'' 150))) (
     py_seq (add_camera_popup_menu h ''cameraList'') (
     py_seq (call (run_unit h) (Build (SetParent ''..''))) (
     py_seq (call (run_unit h) (Build (FrameLayout ''Camera Operations'' 5))) (
     py_seq (call (run_unit h) (Build (ColumnLayout (Some 5)))) (
     py_seq (call (run_unit h) (Build (Button ''Create New Camera'' Create_camera))) (
     py_seq (call (run_unit h) (Build (Button ''Delete Camera'' Delete_camera))) (
     py_seq (call (run_unit h) (Build (Button ''Rename Camera'' Rename_camera))) (
     py_seq (call (run_unit h)
               (Build (Button ''Lock/Unlock Camera Transforms'' Toggle_lock_camera))) (
     py_seq (call (run_unit h) (Build (Button ''Export Selected Cameras'' Export_cameras))) (
     py_seq (call (run_unit h) (Build (Button ''Import Cameras'' Import_cameras))) (
     py_seq (call (run_unit h) (Build (SetParent ''..''))) (
     py_seq (call (run_unit h) (Build (Separator ''in'' 10))) (
     py_seq (call (run_unit h)
               (Build (Text_label
                  ''Select a camera and use the right-click menu for more options.''
                  ''center''))) (
     py_seq (call (run_unit h) (Build (ShowWindow ''cam_manager''))) (
     list_cameras h))))))))))))))))))))))))))"

definition add_shelf_button :: "'w host \<Rightarrow> ('w, unit) prog" where
  "add_shelf_button h =
     py_bind (call (run_bool h) (Build (ShelfLayout_exists ''Custom''))) (\<lambda>exists.
       if exists then
         py_bind (py_global IMG_PATH) (\<lambda>img_path.
         py_seq (call (run_unit h)
                   (Build (ShelfButton ''Custom'' ''Camera Manager'' ''CamMgr''
                      (os_path_join img_path ''main_camera_image.jpg'')
                      ''import camera_manager; camera_manager.cam_manager_ui()''))) (
         call (run_unit h)
           (Build (Print ''Camera Manager button added to shelf: Custom''))))
       else py_return ())"

text \<open>What a button or menu item runs when the user triggers it.\<close>

fun dispatch :: "handler \<Rightarrow> 'w host \<Rightarrow> ('w, unit) prog" where
  "dispatch Create_camera = create_camera"
| "dispatch Delete_camera = delete_camera"
| "dispatch Rename_camera = rename_camera"
| "dispatch Toggle_lock_camera = toggle_lock_camera"
| "dispatch Export_cameras = export_cameras"
| "dispatch Import_cameras = import_cameras"
| "dispatch Set_renderable_camera = set_renderable_camera"
| "dispatch Duplicate_camera = duplicate_camera"
| "dispatch Show_camera_info = show_camera_info"

section \<open>A scripted host for concrete runs\<close>

text \<open>
  A small host state on which the handlers can be run: the selection that the scroll
  list reports, the camera shapes with their transform parents, the locked attributes,
  the numeric attribute values, the answers of the dialogs, and the commands that raise.
  Only \<open>setAttr\<close> changes it.
\<close>

record script =
  sc_selection :: "string list option"
  sc_cameras :: "(string \<times> string) list"
  sc_locked :: "string list"
  sc_attrs :: "(string \<times> int) list"
  sc_confirm :: string
  sc_prompt :: string
  sc_text :: string
  sc_file :: "string list option"
  sc_raises :: "(cmd \<times> pyexn) list"

definition sc_lock_of :: "script \<Rightarrow> string \<Rightarrow> bool" where
  "sc_lock_of w a = (a \<in> set (sc_locked w))"

definition sc_attr_of :: "script \<Rightarrow> string \<Rightarrow> int" where
  "sc_attr_of w a = (case map_of (sc_attrs w) a of Some v \<Rightarrow> v | None \<Rightarrow> 0)"

definition sc_run :: "(cmd \<Rightarrow> script \<Rightarrow> 'a) \<Rightarrow> (cmd \<Rightarrow> script \<Rightarrow> script)
    \<Rightarrow> cmd \<Rightarrow> script \<Rightarrow> (pyexn + 'a) \<times> script" where
  "sc_run answer effect c w =
     (case map_of (sc_raises w) c of
        Some e \<Rightarrow> (Inl e, w)
      | None \<Rightarrow> (Inr (answer c w), effect c w))"

fun sc_effect :: "cmd \<Rightarrow> script \<Rightarrow> script" where
  "sc_effect (SetAttr_lock a b) w =
     w\<lparr>sc_locked := (if b then a # removeAll a (sc_locked w) else removeAll a (sc_locked w))\<rparr>"
| "sc_effect (SetAttr a v) w = w\<lparr>sc_attrs := (a, v) # sc_attrs w\<rparr>"
| "sc_effect _ w = w"

fun sc_str :: "cmd \<Rightarrow> script \<Rightarrow> string" where
  "sc_str (ConfirmDialog _ _ _ _ _ _) w = sc_confirm w"
| "sc_str PromptDialog_rename w = sc_prompt w"
| "sc_str PromptDialog_text w = sc_text w"
| "sc_str (Rename old new) w = new"
| "sc_str _ w = []"

fun sc_bool :: "cmd \<Rightarrow> script \<Rightarrow> bool" where
  "sc_bool (GetAttr_lock a) w = sc_lock_of w a"
| "sc_bool (ObjExists n) w = (n \<in> set (map snd (sc_cameras w)))"
| "sc_bool _ w = False"

fun sc_list :: "cmd \<Rightarrow> script \<Rightarrow> string list option" where
  "sc_list Ls_camera w = Some (map fst (sc_cameras w))"
| "sc_list (ListRelatives_parent c) w =
     (case map_of (sc_cameras w) c of Some p \<Rightarrow> Some [p] | None \<Rightarrow> None)"
| "sc_list (ListRelatives_shapes t) w =
     (case filter (\<lambda>x. snd x = t) (sc_cameras w) of [] \<Rightarrow> None | xs \<Rightarrow> Some (map fst xs))"
| "sc_list TextScrollList_selectItem w = sc_selection w"
| "sc_list (FileDialog2 _ _) w = sc_file w"
| "sc_list (Duplicate c) w = Some [c @ ''1'']"
| "sc_list _ w = None"

definition sc_attr :: "cmd \<Rightarrow> script \<Rightarrow> attrval" where
  "sc_attr c w = (case c of
     GetAttr a \<Rightarrow> \<lparr>py_str = (if sc_attr_of w a = 0 then ''0'' else ''1''),
                   py_bool = (sc_attr_of w a \<noteq> 0)\<rparr>
   | _ \<Rightarrow> \<lparr>py_str = [], py_bool = False\<rparr>)"

definition scripted_host :: "script host" where
  "scripted_host =
     \<lparr>run_unit = sc_run (\<lambda>_ _. ()) sc_effect,
      run_str = sc_run sc_str (\<lambda>_ w. w),
      run_bool = sc_run sc_bool (\<lambda>_ w. w),
      run_list = sc_run sc_list (\<lambda>_ w. w),
      run_attr = sc_run sc_attr (\<lambda>_ w. w)\<rparr>"

text \<open>
  A scene with two cameras, \<open>cam1\<close> selected, its \<open>translateX\<close> locked and nothing else;
  every command succeeds.
\<close>

definition scene0 :: script where
  "scene0 =
     \<lparr>sc_selection = Some [''cam1''],
      sc_cameras = [(''camShape1'', ''cam1''), (''camShape2'', ''cam2'')],
      sc_locked = [''cam1.translateX''],
      sc_attrs = [(''camShape2.renderable'', 1)],
      sc_confirm = ''Yes'',
      sc_prompt = ''OK'',
      sc_text = ''hero'',
      sc_file = Some [''/tmp/cams.ma''],
      sc_raises = []\<rparr>"

definition start :: "script \<Rightarrow> script pstate" where
  "start w = \<lparr>globals = \<lparr>IMG_PATH = ''/scripts/img''\<rparr>, world = w\<rparr>"

text \<open>The parts of a run.\<close>

definition result_of :: "(pyexn + 'a) \<times> 'w pstate \<times> event list \<Rightarrow> pyexn + 'a" where
  "result_of x = fst x"

definition state_of :: "(pyexn + 'a) \<times> 'w pstate \<times> event list \<Rightarrow> 'w pstate" where
  "state_of x = fst (snd x)"

definition trace_of :: "(pyexn + 'a) \<times> 'w pstate \<times> event list \<Rightarrow> event list" where
  "trace_of x = snd (snd x)"

section \<open>Properties of traces\<close>

text \<open>The commands that change the scene (or, for the export, write the scene out).\<close>

fun mutating :: "cmd \<Rightarrow> bool" where
  "mutating Camera = True"
| "mutating (Delete _) = True"
| "mutating (Rename _ _) = True"
| "mutating (Duplicate _) = True"
| "mutating (SetAttr_lock _ _) = True"
| "mutating (SetAttr _ _) = True"
| "mutating (Select_replace _) = True"
| "mutating (File_exportSelected _) = True"
| "mutating (File_import _) = True"
| "mutating _ = False"

definition mutations :: "event list \<Rightarrow> event list" where
  "mutations t = filter (\<lambda>e. mutating (fst e)) t"

text \<open>The commands that \<open>list_cameras\<close> issues.\<close>

fun list_cmd :: "cmd \<Rightarrow> bool" where
  "list_cmd Ls_camera = True"
| "list_cmd (ListRelatives_parent _) = True"
| "list_cmd TextScrollList_removeAll = True"
| "list_cmd (TextScrollList_append _) = True"
| "list_cmd _ = False"

text \<open>The commands that edit the scroll list.\<close>

fun list_edit :: "cmd \<Rightarrow> bool" where
  "list_edit TextScrollList_removeAll = True"
| "list_edit (TextScrollList_append _) = True"
| "list_edit _ = False"

definition clean :: "event list \<Rightarrow> bool" where
  "clean t = list_all (\<lambda>e. snd e = None) t"

text \<open>
  Code without \<open>try\<close>: a command that raises ends it, so only the last event of its
  trace can carry an exception, which is then the one that the code raises.
\<close>

definition straight :: "pyexn + 'a \<Rightarrow> event list \<Rightarrow> bool" where
  "straight r t = (clean t \<or> (\<exists>t0 c e. t = t0 @ [(c, Some e)] \<and> clean t0 \<and> r = Inl e))"

definition straight_prog :: "('w, 'a) prog \<Rightarrow> bool" where
  "straight_prog m = (\<forall>s r s' t. m s = (r, s', t) \<longrightarrow> straight r t)"

definition issues :: "(cmd \<Rightarrow> bool) \<Rightarrow> ('w, 'a) prog \<Rightarrow> bool" where
  "issues K m = (\<forall>s r s' t. m s = (r, s', t) \<longrightarrow> list_all (\<lambda>e. K (fst e)) t)"

definition keeps_globals :: "('w, 'a) prog \<Rightarrow> bool" where
  "keeps_globals m = (\<forall>s r s' t. m s = (r, s', t) \<longrightarrow> globals s' = globals s)"

text \<open>The command after whose success a handler calls \<open>list_cameras\<close>.\<close>

fun completes :: "handler \<Rightarrow> cmd \<Rightarrow> bool" where
  "completes Create_camera c = (c = Camera)"
| "completes Delete_camera c = (case c of Delete _ \<Rightarrow> True | _ \<Rightarrow> False)"
| "completes Rename_camera c = (case c of Rename _ _ \<Rightarrow> True | _ \<Rightarrow> False)"
| "completes Import_cameras c = (case c of File_import _ \<Rightarrow> True | _ \<Rightarrow> False)"
| "completes Duplicate_camera c = (case c of Rename _ _ \<Rightarrow> True | _ \<Rightarrow> False)"
| "completes _ c = False"

text \<open>
  The commands in the \<open>try\<close> block of a handler whose \<open>except\<close> clause shows the error
  dialog, and the exceptions that clause catches.
\<close>

fun guarded :: "handler \<Rightarrow> cmd \<Rightarrow> bool" where
  "guarded Create_camera c = False"
| "guarded Delete_camera c = (case c of Delete _ \<Rightarrow> True | _ \<Rightarrow> list_cmd c)"
| "guarded Rename_camera c = (case c of Rename _ _ \<Rightarrow> True | _ \<Rightarrow> list_cmd c)"
| "guarded Toggle_lock_camera c =
     (case c of GetAttr_lock _ \<Rightarrow> True | SetAttr_lock _ _ \<Rightarrow> True | InViewMessage _ \<Rightarrow> True
      | _ \<Rightarrow> False)"
| "guarded Export_cameras c =
     (case c of Select_replace _ \<Rightarrow> True | File_exportSelected _ \<Rightarrow> True
      | InViewMessage _ \<Rightarrow> True | _ \<Rightarrow> False)"
| "guarded Import_cameras c =
     (case c of File_import _ \<Rightarrow> True | InViewMessage _ \<Rightarrow> True | _ \<Rightarrow> list_cmd c)"
| "guarded Set_renderable_camera c =
     (case c of ListRelatives_shapes _ \<Rightarrow> True | SetAttr _ v \<Rightarrow> v = 1
      | InViewMessage _ \<Rightarrow> True | _ \<Rightarrow> False)"
| "guarded Duplicate_camera c =
     (case c of Duplicate _ \<Rightarrow> True | Rename _ _ \<Rightarrow> True | InViewMessage _ \<Rightarrow> True
      | _ \<Rightarrow> list_cmd c)"
| "guarded Show_camera_info c =
     (case c of ListRelatives_shapes _ \<Rightarrow> True | GetAttr _ \<Rightarrow> True
      | ConfirmDialog title _ _ _ _ _ \<Rightarrow> title = ''Camera Info'' | _ \<Rightarrow> False)"

fun catches :: "handler \<Rightarrow> pyexn \<Rightarrow> bool" where
  "catches Create_camera e = False"
| "catches Delete_camera e = isinstance_RuntimeError e"
| "catches Rename_camera e = isinstance_RuntimeError e"
| "catches _ e = isinstance_Exception e"

text \<open>
  The commands whose exceptions a handler ignores (\<open>except Exception: pass\<close>): those
  that clear the renderable flags in \<open>set_renderable_camera\<close>.
\<close>

fun suppressed :: "handler \<Rightarrow> cmd \<Rightarrow> bool" where
  "suppressed Set_renderable_camera c = (case c of SetAttr _ v \<Rightarrow> v = 0 | _ \<Rightarrow> False)"
| "suppressed _ c = False"

text \<open>
  What a handler that needs a selection reports with \<open>cmds.warning\<close> when nothing is
  selected; \<open>delete_camera\<close> and \<open>rename_camera\<close> report nothing.
\<close>

fun no_selection_warning :: "handler \<Rightarrow> string option" where
  "no_selection_warning Delete_camera = None"
| "no_selection_warning Rename_camera = None"
| "no_selection_warning Export_cameras = Some ''No cameras selected to export.''"
| "no_selection_warning _ = Some ''No camera selected.''"

text \<open>
  \<open>scene_part h scene\<close>: \<open>scene\<close> is a part of the host state that only the mutating
  commands change.
\<close>

definition scene_part :: "'w host \<Rightarrow> ('w \<Rightarrow> 'x) \<Rightarrow> bool" where
  "scene_part h scene = (\<forall>c w. \<not> mutating c \<longrightarrow>
     scene (snd (run_unit h c w)) = scene w \<and> scene (snd (run_str h c w)) = scene w
     \<and> scene (snd (run_bool h c w)) = scene w \<and> scene (snd (run_list h c w)) = scene w
     \<and> scene (snd (run_attr h c w)) = scene w)"

text \<open>
  The most scene-changing commands that one run of a handler issues;
  \<open>set_renderable_camera\<close> issues one per camera shape of the scene and one more.
\<close>

fun max_mutations :: "handler \<Rightarrow> nat" where
  "max_mutations Create_camera = 1"
| "max_mutations Delete_camera = 1"
| "max_mutations Rename_camera = 1"
| "max_mutations Import_cameras = 1"
| "max_mutations Export_cameras = 2"
| "max_mutations Duplicate_camera = 2"
| "max_mutations Toggle_lock_camera = 9"
| "max_mutations Show_camera_info = 0"
| "max_mutations Set_renderable_camera = 0"

text \<open>The message with which a handler reports that it has done its work.\<close>

fun is_message :: "cmd \<Rightarrow> bool" where
  "is_message (InViewMessage _) = True"
| "is_message _ = False"

text \<open>
  The first transform parent that the host reports for each camera shape, asked in
  order from the host state \<open>w\<close>.
\<close>

fun first_parents :: "'w host \<Rightarrow> string list \<Rightarrow> 'w \<Rightarrow> string list" where
  "first_parents h [] w = []"
| "first_parents h (c # cs) w =
     (case run_list h (ListRelatives_parent c) w of
        (Inr (Some (p # _)), w') \<Rightarrow> p # first_parents h cs w'
      | _ \<Rightarrow> [])"

text \<open>
  \<open>list_cameras\<close> as a single pass over the camera shapes, which looks up the parent
  of a shape and appends it before it turns to the next shape: the reading of the
  specification that \<open>list_cameras\<close> is compared with.
\<close>

definition list_cameras_single_pass :: "'w host \<Rightarrow> ('w, unit) prog" where
  "list_cameras_single_pass h =
     py_bind (call (run_list h) Ls_camera) (\<lambda>cameras.
     py_seq (call (run_unit h) TextScrollList_removeAll) (
     py_bind (py_iter cameras) (\<lambda>shapes.
     py_for shapes (\<lambda>c.
       py_bind (py_bind (call (run_list h) (ListRelatives_parent c)) subscript0) (\<lambda>cam.
       call (run_unit h) (TextScrollList_append cam))))))"

text \<open>A scene in which the parent of the second camera shape cannot be looked up.\<close>

definition scene_broken :: script where
  "scene_broken =
     scene0\<lparr>sc_raises :=
       [(ListRelatives_parent ''camShape2'', (RuntimeError, ''No object matches name''))]\<rparr>"

text \<open>
  Scenes in which a host command raises: the selected camera has been deleted behind
  the list (\<open>delete\<close> raises \<open>ValueError\<close>); the window of the tool is closed (the scroll
  list is gone); the renderable flag of the second camera shape cannot be set; the
  \<open>rotateX\<close> attribute of the selected camera cannot be locked or unlocked. And a scene
  in which the user enters the name of the second camera in the rename dialog.
\<close>

definition scene_stale :: script where
  "scene_stale =
     scene0\<lparr>sc_raises := [(Delete ''cam1'', (ValueError, ''No object matches name: cam1''))]\<rparr>"

definition scene_closed :: script where
  "scene_closed =
     scene0\<lparr>sc_raises :=
       [(TextScrollList_removeAll, (RuntimeError, ''Object cameraList not found.''))]\<rparr>"

definition scene_fixed_flag :: script where
  "scene_fixed_flag =
     scene0\<lparr>sc_raises :=
       [(SetAttr ''camShape2.renderable'' 0,
         (RuntimeError, ''setAttr: The attribute camShape2.renderable is locked.''))]\<rparr>"

definition scene_fixed_rotate :: script where
  "scene_fixed_rotate =
     scene0\<lparr>sc_raises :=
       [(SetAttr_lock ''cam1.rotateX'' False,
         (RuntimeError, ''setAttr: cam1.rotateX is from a referenced file.''))]\<rparr>"

definition scene_name_taken :: script where
  "scene_name_taken = scene0\<lparr>sc_text := ''cam2''\<rparr>"


definition attr_store :: "'w host \<Rightarrow> ('w \<Rightarrow> string \<Rightarrow> int) \<Rightarrow> bool" where
  "attr_store h attr_of =
     (scene_part h attr_of
      \<and> (\<forall>a v w r w'. run_unit h (SetAttr a v) w = (r, w')
            \<longrightarrow> attr_of w' = (case r of Inr _ \<Rightarrow> (attr_of w)(a := v) | Inl _ \<Rightarrow> attr_of w)))"



text \<open>
  The kinds of scene commands: create a camera, delete a node, rename a node, set an
  attribute, select, export the selection to a file, import a file, duplicate a node.
\<close>

datatype kind =
    K_camera | K_delete | K_rename | K_setAttr | K_select | K_export | K_import
  | K_duplicate | K_other

fun kind_of :: "cmd \<Rightarrow> kind" where
  "kind_of Camera = K_camera"
| "kind_of (Delete _) = K_delete"
| "kind_of (Rename _ _) = K_rename"
| "kind_of (Duplicate _) = K_duplicate"
| "kind_of (SetAttr_lock _ _) = K_setAttr"
| "kind_of (SetAttr _ _) = K_setAttr"
| "kind_of (Select_replace _) = K_select"
| "kind_of (File_exportSelected _) = K_export"
| "kind_of (File_import _) = K_import"
| "kind_of _ = K_other"

text \<open>
  The kinds of the scene-changing commands of a handler, in the order in which it issues
  them; those of \<open>set_renderable_camera\<close> depend on the scene (one \<open>setAttr\<close> per camera
  shape and one more).
\<close>

fun kinds :: "handler \<Rightarrow> kind list" where
  "kinds Create_camera = [K_camera]"
| "kinds Delete_camera = [K_delete]"
| "kinds Rename_camera = [K_rename]"
| "kinds Import_cameras = [K_import]"
| "kinds Export_cameras = [K_select, K_export]"
| "kinds Duplicate_camera = [K_duplicate, K_rename]"
| "kinds Toggle_lock_camera = replicate 9 K_setAttr"
| "kinds Show_camera_info = []"
| "kinds Set_renderable_camera = []"

definition mutation_kinds :: "event list \<Rightarrow> kind list" where
  "mutation_kinds t = map (\<lambda>e. kind_of (fst e)) (mutations t)"

definition starts :: "'a list \<Rightarrow> 'a list \<Rightarrow> bool" where
  "starts xs ys = (take (length xs) ys = xs)"

text \<open>The events of a trace after the first command of \<open>P\<close> that succeeded.\<close>

fun after_success :: "(cmd \<Rightarrow> bool) \<Rightarrow> event list \<Rightarrow> event list option" where
  "after_success P [] = None"
| "after_success P ((c, x) # t) = (if P c \<and> x = None then Some t else after_success P t)"

text \<open>
  \<open>calls_list_cameras h s op post\<close>: the events \<open>post\<close> begin with the whole trace of a
  run of \<open>list_cameras\<close>, started with the module state of \<open>s\<close> in the host state that
  the completing command of \<open>op\<close> has left.
\<close>

definition calls_list_cameras :: "'w host \<Rightarrow> 'w pstate \<Rightarrow> handler \<Rightarrow> event list \<Rightarrow> bool" where
  "calls_list_cameras h s op post =
     (\<exists>s1 rest c w0.
        post = trace_of (list_cameras h s1) @ rest \<and> globals s1 = globals s
        \<and> completes op c
        \<and> (run_unit h c w0 = (Inr (), world s1) \<or> (\<exists>a. run_str h c w0 = (Inr a, world s1))))"

text \<open>
  \<open>handled op r t\<close>: in a run of the handler \<open>op\<close> with result \<open>r\<close> and trace \<open>t\<close>,
  every exception that a host command raised is \<^emph>\<open>forwarded\<close> (the command is in the
  \<open>try\<close> block and the exception of the class that is caught: the error dialog with
  its message follows and nothing else, and the run returns when the dialog does and
  raises what the dialog raises), or \<^emph>\<open>ignored\<close> (a suppressed command and an
  \<open>Exception\<close>: the run goes on with the next suppressed command or with the first
  command of the \<open>try\<close> block), or \<^emph>\<open>propagated\<close> (the command is the last of the run,
  which raises the exception to its caller).
\<close>

fun handled :: "handler \<Rightarrow> pyexn + unit \<Rightarrow> event list \<Rightarrow> bool" where
  "handled op r [] = True"
| "handled op r ((c, x) # t) =
     ((case x of
         None \<Rightarrow> True
       | Some e \<Rightarrow>
           (if guarded op c \<and> catches op e then
              (case t of
                 [(c', x')] \<Rightarrow>
                   c' = error_dialog_cmd e
                   \<and> r = (case x' of None \<Rightarrow> Inr () | Some e' \<Rightarrow> Inl e')
               | _ \<Rightarrow> False)
            else if suppressed op c \<and> isinstance_Exception e then
              (case t of [] \<Rightarrow> False | (c', x') # _ \<Rightarrow> suppressed op c' \<or> guarded op c')
            else t = [] \<and> r = Inl e))
      \<and> handled op r t)"

text \<open>A run in which no command raised anything but an \<open>Exception\<close>.\<close>

definition only_exceptions :: "event list \<Rightarrow> bool" where
  "only_exceptions t =
     list_all (\<lambda>e. case snd e of None \<Rightarrow> True | Some x \<Rightarrow> isinstance_Exception x) t"

text \<open>The command that clears the renderable flag of a camera shape.\<close>

definition reset_cmd :: "string \<Rightarrow> cmd" where
  "reset_cmd cam_shape = SetAttr (cam_shape @ ''.renderable'') 0"

text \<open>The dialog with which \<open>rename_camera\<close> refuses a name that exists.\<close>

definition name_taken_cmd :: "string \<Rightarrow> cmd" where
  "name_taken_cmd new_name =
     ConfirmDialog ''Error''
       (''A camera named '' @ apostrophe @ new_name @ apostrophe @ '' already exists.'')
       [''OK''] None None ''critical''"

text \<open>
  A host in its best mood: no command raises, every list query returns a non-empty list
  (something is selected, a file is chosen, every node has relatives), the confirmation
  of a deletion is answered \<open>Yes\<close>, the rename prompt \<open>OK\<close>, and no name is taken.
\<close>

definition nominal :: "'w host \<Rightarrow> bool" where
  "nominal h =
     ((\<forall>c w. fst (run_unit h c w) = Inr ())
      \<and> (\<forall>c w. \<exists>x xs. fst (run_list h c w) = Inr (Some (x # xs)))
      \<and> (\<forall>c w. \<exists>a. fst (run_str h c w) = Inr a)
      \<and> (\<forall>c w. \<exists>a. fst (run_attr h c w) = Inr a)
      \<and> (\<forall>c w. \<exists>a. fst (run_bool h c w) = Inr a)
      \<and> (\<forall>n w. fst (run_bool h (ObjExists n) w) = Inr False)
      \<and> (\<forall>w. fst (run_str h PromptDialog_rename w) = Inr ''OK'')
      \<and> (\<forall>m bs d c i w.
            fst (run_str h (ConfirmDialog ''Delete Camera?'' m bs d c i) w) = Inr ''Yes''))"

definition willing_host :: "unit host" where
  "willing_host =
     \<lparr>run_unit = (\<lambda>c w. (Inr (), w)),
      run_str = (\<lambda>c w. (Inr (case c of
          ConfirmDialog _ _ _ _ _ _ \<Rightarrow> ''Yes'' | PromptDialog_rename \<Rightarrow> ''OK''
        | _ \<Rightarrow> ''hero''), w)),
      run_bool = (\<lambda>c w. (Inr False, w)),
      run_list = (\<lambda>c w. (Inr (Some [''cam1'']), w)),
      run_attr = (\<lambda>c w. (Inr \<lparr>py_str = ''35.0'', py_bool = True\<rparr>, w))\<rparr>"

text \<open>The command with which a handler performs its operation.\<close>

fun performs :: "handler \<Rightarrow> cmd \<Rightarrow> bool" where
  "performs Create_camera c = (kind_of c = K_camera)"
| "performs Delete_camera c = (kind_of c = K_delete)"
| "performs Rename_camera c = (kind_of c = K_rename)"
| "performs Toggle_lock_camera c = (case c of SetAttr_lock _ _ \<Rightarrow> True | _ \<Rightarrow> False)"
| "performs Export_cameras c = (kind_of c = K_export)"
| "performs Import_cameras c = (kind_of c = K_import)"
| "performs Set_renderable_camera c = (case c of SetAttr _ v \<Rightarrow> v = 1 | _ \<Rightarrow> False)"
| "performs Duplicate_camera c = (kind_of c = K_duplicate)"
| "performs Show_camera_info c =
     (case c of ConfirmDialog title _ _ _ _ _ \<Rightarrow> title = ''Camera Info'' | _ \<Rightarrow> False)"

text \<open>
  The commands that build the window, in order: \<open>img\<close> is the image directory, and the
  flags say whether a window and a popup menu of the tool's names exist already (they
  are deleted first).
\<close>

definition ui_commands :: "string \<Rightarrow> bool \<Rightarrow> bool \<Rightarrow> ui_cmd list" where
  "ui_commands img window_exists menu_exists =
     [Window_exists ''cam_manager'']
     @ (if window_exists then [DeleteUI ''cam_manager''] else [])
     @ [Window ''cam_manager'' ''Camera Manager'' 300 900,
        ColumnLayout (Some 10),
        FrameLayout ''Camera Manager'' 5,
        ColumnLayout None,
        Image_control (os_path_join img ''main_camera_image.jpeg'') 100,
        SetParent ''..'',
        FrameLayout ''Cameras'' 5,
        ColumnLayout None,
        TextScrollList_create ''cameraList'' 150,
        PopupMenu_exists ''camListMenu'']
     @ (if menu_exists then [DeleteUI ''camListMenu''] else [])
     @ [PopupMenu ''camListMenu'' ''cameraList'' 3,
        MenuItem ''Set as Renderable'' Set_renderable_camera,
        MenuItem ''Duplicate Camera'' Duplicate_camera,
        MenuItem ''Show Camera Info'' Show_camera_info,
        SetParent ''..'',
        FrameLayout ''Camera Operations'' 5,
        ColumnLayout (Some 5),
        Button ''Create New Camera'' Create_camera,
        Button ''Delete Camera'' Delete_camera,
        Button ''Rename Camera'' Rename_camera,
        Button ''Lock/Unlock Camera Transforms'' Toggle_lock_camera,
        Button ''Export Selected Cameras'' Export_cameras,
        Button ''Import Cameras'' Import_cameras,
        SetParent ''..'',
        Separator ''in'' 10,
        Text_label ''Select a camera and use the right-click menu for more options.''
          ''center'',
        ShowWindow ''cam_manager'']"

text \<open>A scene in which the copy of the selected camera cannot be renamed.\<close>

definition scene_copy_fixed :: script where
  "scene_copy_fixed =
     scene0\<lparr>sc_raises :=
       [(Rename ''cam11'' ''cam1_copy#'', (RuntimeError, ''Cannot rename a read only node.''))]\<rparr>"

section \<open>Lemmas on the control flow\<close>

lemma clean_append: "clean (t1 @ t2) = (clean t1 \<and> clean t2)"
  by (simp add: clean_def)

lemma straight_Inr: "straight (Inr a) t = clean t"
  by (auto simp: straight_def)

lemma straight_append: "clean t1 \<Longrightarrow> straight r t2 \<Longrightarrow> straight r (t1 @ t2)"
  unfolding straight_def
proof (elim disjE exE conjE)
  assume "clean t1" "clean t2"
  then show "clean (t1 @ t2) \<or> (\<exists>t0 c e. t1 @ t2 = t0 @ [(c, Some e)] \<and> clean t0 \<and> r = Inl e)"
    by (simp add: clean_append)
next
  fix t0 c e
  assume a: "clean t1" "t2 = t0 @ [(c, Some e)]" "clean t0" "r = Inl e"
  then have "t1 @ t2 = (t1 @ t0) @ [(c, Some e)] \<and> clean (t1 @ t0) \<and> r = Inl e"
    by (simp add: clean_append)
  then show "clean (t1 @ t2) \<or> (\<exists>t0 c e. t1 @ t2 = t0 @ [(c, Some e)] \<and> clean t0 \<and> r = Inl e)"
    by blast
qed

lemma straight_return: "straight_prog (py_return a)"
  by (simp add: straight_prog_def py_return_def straight_def clean_def)

lemma straight_raise: "straight_prog (py_raise e)"
  by (simp add: straight_prog_def py_raise_def straight_def clean_def)

lemma straight_global: "straight_prog (py_global f)"
  by (simp add: straight_prog_def py_global_def straight_def clean_def)

lemma straight_call: "straight_prog (call run c)"
  by (auto simp: straight_prog_def call_def straight_def clean_def py_outcome_def
      split: prod.splits sum.splits)

lemma straight_bind:
  assumes "straight_prog m" and "\<And>a. straight_prog (k a)"
  shows "straight_prog (py_bind m k)"
  unfolding straight_prog_def
proof (intro allI impI)
  fix s r s' t
  assume run: "py_bind m k s = (r, s', t)"
  obtain r1 s1 t1 where m: "m s = (r1, s1, t1)" by (cases "m s") auto
  with assms(1) have st1: "straight r1 t1" by (auto simp: straight_prog_def)
  show "straight r t"
  proof (cases r1)
    case (Inl e)
    with run m st1 show ?thesis by (auto simp: py_bind_def straight_def)
  next
    case (Inr a)
    obtain r2 s2 t2 where k: "k a s1 = (r2, s2, t2)" by (cases "k a s1") auto
    with assms(2) have "straight r2 t2" by (auto simp: straight_prog_def)
    moreover from st1 Inr have "clean t1" by (simp add: straight_Inr)
    moreover from run m Inr k have "r = r2" "t = t1 @ t2" by (auto simp: py_bind_def)
    ultimately show ?thesis by (simp add: straight_append)
  qed
qed

lemma straight_seq: "straight_prog m \<Longrightarrow> straight_prog k \<Longrightarrow> straight_prog (py_seq m k)"
  by (simp add: py_seq_def straight_bind)

lemma straight_for: "(\<And>x. straight_prog (body x)) \<Longrightarrow> straight_prog (py_for xs body)"
  by (induction xs) (simp_all add: straight_return straight_bind)

lemma straight_listcomp: "(\<And>x. straight_prog (f x)) \<Longrightarrow> straight_prog (py_listcomp xs f)"
  by (induction xs) (simp_all add: straight_return straight_bind)

lemma straight_iter: "straight_prog (py_iter v)"
  by (simp add: py_iter_def straight_return straight_raise split: option.splits)

lemma straight_subscript0: "straight_prog (subscript0 v)"
  by (simp add: subscript0_def straight_return straight_raise split: option.splits list.splits)

lemmas straight_intros = straight_return straight_raise straight_global straight_call
  straight_bind straight_seq straight_for straight_listcomp straight_iter straight_subscript0

lemma straight_list_cameras: "straight_prog (list_cameras h)"
  unfolding list_cameras_def by (intro straight_intros)

lemma issues_return: "issues K (py_return a)"
  by (simp add: issues_def py_return_def)
lemma issues_raise: "issues K (py_raise e)"
  by (simp add: issues_def py_raise_def)
lemma issues_global: "issues K (py_global f)"
  by (simp add: issues_def py_global_def)
lemma issues_call: "K c \<Longrightarrow> issues K (call run c)"
  by (auto simp: issues_def call_def split: prod.splits)
lemma issues_bind: "issues K m \<Longrightarrow> (\<And>a. issues K (k a)) \<Longrightarrow> issues K (py_bind m k)"
  by (fastforce simp: issues_def py_bind_def split: prod.splits sum.splits)
lemma issues_seq: "issues K m \<Longrightarrow> issues K k \<Longrightarrow> issues K (py_seq m k)"
  by (simp add: py_seq_def issues_bind)
lemma issues_try: "issues K m \<Longrightarrow> (\<And>e. issues K (k e)) \<Longrightarrow> issues K (py_try m C k)"
  by (fastforce simp: issues_def py_try_def split: prod.splits sum.splits if_splits)
lemma issues_for: "(\<And>x. issues K (body x)) \<Longrightarrow> issues K (py_for xs body)"
  by (induction xs) (simp_all add: issues_return issues_bind)
lemma issues_listcomp: "(\<And>x. issues K (f x)) \<Longrightarrow> issues K (py_listcomp xs f)"
  by (induction xs) (simp_all add: issues_return issues_bind)
lemma issues_iter: "issues K (py_iter v)"
  by (simp add: py_iter_def issues_return issues_raise split: option.splits)
lemma issues_subscript0: "issues K (subscript0 v)"
  by (simp add: subscript0_def issues_return issues_raise split: option.splits list.splits)
lemma issues_mono: "issues K m \<Longrightarrow> (\<And>c. K c \<Longrightarrow> K' c) \<Longrightarrow> issues K' m"
  by (auto simp: issues_def list_all_iff)

lemmas issues_intros = issues_return issues_raise issues_global issues_call
  issues_bind issues_seq issues_try issues_for issues_listcomp issues_iter issues_subscript0

lemma issues_list_cameras: "issues list_cmd (list_cameras h)"
  unfolding list_cameras_def by (intro issues_intros) simp_all

lemma list_cameras_first:
  "list_cameras h s = (r, s', t) \<Longrightarrow> \<exists>x t'. t = (Ls_camera, x) # t'"
  by (auto simp: list_cameras_def py_bind_def call_def py_seq_def split: prod.splits sum.splits)

lemmas run_defs = py_bind_def py_seq_def call_def py_try_def py_return_def py_raise_def
  py_outcome_def py_global_def py_iter_def subscript0_def error_dialog_def
  result_of_def state_of_def trace_of_def

lemmas handler_defs = create_camera_def delete_camera_def rename_camera_def
  toggle_lock_camera_def export_cameras_def import_cameras_def set_renderable_camera_def
  duplicate_camera_def show_camera_info_def

text \<open>
  C8: when nothing is selected in the camera list (the selection query returns \<open>None\<close>
  or the empty list), every handler that needs a selection issues the query and at most
  a warning, no mutating command, returns what the warning returns (\<open>delete_camera\<close>
  and \<open>rename_camera\<close>, which warn of nothing, return), and leaves every part of the
  host state that only mutating commands change as it was.
\<close>

theorem no_selection_no_mutation:
  assumes "run_list h TextScrollList_selectItem (world s) = (Inr sel, w1)"
    and "sel = None \<or> sel = Some []"
    and "op \<noteq> Create_camera" and "op \<noteq> Import_cameras"
    and "scene_part h scene"
  shows "map fst (trace_of (dispatch op h s))
           = TextScrollList_selectItem
               # (case no_selection_warning op of None \<Rightarrow> [] | Some m \<Rightarrow> [Warning m])
         \<and> mutations (trace_of (dispatch op h s)) = []
         \<and> result_of (dispatch op h s)
             = (case no_selection_warning op of
                  None \<Rightarrow> Inr ()
                | Some m \<Rightarrow> fst (run_unit h (Warning m) w1))
         \<and> scene (world (state_of (dispatch op h s))) = scene (world s)"
proof -
  have q: "scene w1 = scene (world s)"
    using assms(1,5) unfolding scene_part_def
    by (metis mutating.simps(15) snd_conv)
  have w: "\<And>m x y. run_unit h (Warning m) w1 = (x, y) \<Longrightarrow> scene y = scene (world s)"
  proof -
    fix m x y
    assume "run_unit h (Warning m) w1 = (x, y)"
    moreover have "scene (snd (run_unit h (Warning m) w1)) = scene w1"
      using assms(5) unfolding scene_part_def by simp
    ultimately show "scene y = scene (world s)" using q by simp
  qed
  show ?thesis
    using assms(1-4) q w
    by (cases op)
       (auto simp: handler_defs run_defs mutations_def split: prod.splits sum.splits)
qed

lemmas script_defs = scripted_host_def sc_run_def sc_attr_def sc_lock_of_def sc_attr_of_def
  start_def scene0_def

lemma scene_part_scripted: "scene_part scripted_host (\<lambda>w. w)"
  unfolding scene_part_def
proof (intro allI impI)
  fix c :: cmd and w :: script
  assume "\<not> mutating c"
  then have "sc_effect c w = w" by (cases c) simp_all
  then show "snd (run_unit scripted_host c w) = w \<and> snd (run_str scripted_host c w) = w
     \<and> snd (run_bool scripted_host c w) = w \<and> snd (run_list scripted_host c w) = w
     \<and> snd (run_attr scripted_host c w) = w"
    by (simp add: scripted_host_def sc_run_def split: option.splits)
qed

theorem no_selection_no_mutation_witness:
  "map fst (trace_of (dispatch Toggle_lock_camera scripted_host
       (start (scene0\<lparr>sc_selection := None\<rparr>))))
     = [TextScrollList_selectItem, Warning ''No camera selected.'']
   \<and> mutations (trace_of (dispatch Toggle_lock_camera scripted_host
       (start (scene0\<lparr>sc_selection := None\<rparr>)))) = []
   \<and> result_of (dispatch Toggle_lock_camera scripted_host
       (start (scene0\<lparr>sc_selection := None\<rparr>))) = Inr ()
   \<and> world (state_of (dispatch Toggle_lock_camera scripted_host
       (start (scene0\<lparr>sc_selection := None\<rparr>)))) = scene0\<lparr>sc_selection := None\<rparr>"
proof -
  have q: "run_list scripted_host TextScrollList_selectItem
      (world (start (scene0\<lparr>sc_selection := None\<rparr>)))
    = (Inr None, scene0\<lparr>sc_selection := None\<rparr>)"
    by (simp add: script_defs)
  have w: "fst (run_unit scripted_host (Warning ''No camera selected.'')
      (scene0\<lparr>sc_selection := None\<rparr>)) = Inr ()"
    by (simp add: script_defs)
  show ?thesis
    using no_selection_no_mutation [OF q _ _ _ scene_part_scripted, of Toggle_lock_camera] w
    by (simp add: start_def)
qed

lemma keeps_return: "keeps_globals (py_return a)"
  by (simp add: keeps_globals_def py_return_def)

lemma keeps_raise: "keeps_globals (py_raise e)"
  by (simp add: keeps_globals_def py_raise_def)

lemma keeps_global: "keeps_globals (py_global f)"
  by (simp add: keeps_globals_def py_global_def)

lemma keeps_call: "keeps_globals (call run c)"
  by (auto simp: keeps_globals_def call_def split: prod.splits)

lemma keeps_bind: "keeps_globals m \<Longrightarrow> (\<And>a. keeps_globals (k a)) \<Longrightarrow> keeps_globals (py_bind m k)"
  unfolding keeps_globals_def py_bind_def
  by (fastforce split: prod.splits sum.splits)

lemma keeps_seq: "keeps_globals m \<Longrightarrow> keeps_globals k \<Longrightarrow> keeps_globals (py_seq m k)"
  by (simp add: py_seq_def keeps_bind)

lemma keeps_try: "keeps_globals m \<Longrightarrow> (\<And>e. keeps_globals (k e)) \<Longrightarrow> keeps_globals (py_try m C k)"
  unfolding keeps_globals_def py_try_def
  by (fastforce split: prod.splits sum.splits if_splits)

lemma keeps_for: "(\<And>x. keeps_globals (body x)) \<Longrightarrow> keeps_globals (py_for xs body)"
  by (induction xs) (simp_all add: keeps_return keeps_bind)

lemma keeps_listcomp: "(\<And>x. keeps_globals (f x)) \<Longrightarrow> keeps_globals (py_listcomp xs f)"
  by (induction xs) (simp_all add: keeps_return keeps_bind)

lemma keeps_iter: "keeps_globals (py_iter v)"
  by (simp add: py_iter_def keeps_return keeps_raise split: option.splits)

lemma keeps_subscript0: "keeps_globals (subscript0 v)"
  by (simp add: subscript0_def keeps_return keeps_raise split: option.splits list.splits)

lemma keeps_error_dialog: "keeps_globals (error_dialog h e)"
  by (simp add: error_dialog_def keeps_seq keeps_call keeps_return)

lemmas keeps_intros = keeps_return keeps_raise keeps_global keeps_call keeps_bind keeps_seq
  keeps_try keeps_for keeps_listcomp keeps_iter keeps_subscript0 keeps_error_dialog

lemma keeps_list_cameras: "keeps_globals (list_cameras h)"
  unfolding list_cameras_def by (intro keeps_intros)

lemma keeps_dispatch: "keeps_globals (dispatch op h)"
  by (cases op)
     (auto simp: handler_defs intro!: keeps_intros keeps_list_cameras
        split: option.splits list.splits)

lemma keeps_popup: "keeps_globals (add_camera_popup_menu h n)"
  unfolding add_camera_popup_menu_def by (auto intro!: keeps_intros)

lemma keeps_ui: "keeps_globals (cam_manager_ui h)"
  unfolding cam_manager_ui_def by (auto intro!: keeps_intros keeps_popup keeps_list_cameras)

lemma keeps_shelf: "keeps_globals (add_shelf_button h)"
  unfolding add_shelf_button_def by (auto intro!: keeps_intros)

lemma keeps_state_of: "keeps_globals m \<Longrightarrow> globals (state_of (m s)) = globals s"
  by (cases "m s") (auto simp: keeps_globals_def state_of_def)

text \<open>
  C6: the module state, whose only component is \<open>IMG_PATH\<close>, is the same after every
  run of every function of the program as before it, whatever the host does and
  whether the function returns or raises; all that a run changes is the host state,
  through the host's commands.
\<close>

theorem module_state_unchanged:
  "globals (state_of (dispatch op h s)) = globals s
   \<and> globals (state_of (list_cameras h s)) = globals s
   \<and> globals (state_of (add_camera_popup_menu h n s)) = globals s
   \<and> globals (state_of (cam_manager_ui h s)) = globals s
   \<and> globals (state_of (add_shelf_button h s)) = globals s"
  by (simp add: keeps_state_of keeps_dispatch keeps_list_cameras keeps_popup keeps_ui keeps_shelf)

lemma list_cameras_returns:
  assumes "list_cameras h s = (Inr u, s', t)"
  shows "\<exists>t'. t = (Ls_camera, None) # (TextScrollList_removeAll, None) # t'
              \<and> list_all (\<lambda>e. list_cmd (fst e)) t'"
proof -
  from assms issues_list_cameras have a: "list_all (\<lambda>e. list_cmd (fst e)) t"
    unfolding issues_def by blast
  from assms have "\<exists>t'. t = (Ls_camera, None) # (TextScrollList_removeAll, None) # t'"
    by (auto simp: list_cameras_def py_bind_def call_def py_seq_def py_outcome_def
          split: prod.splits sum.splits)
  with a show ?thesis by auto
qed

lemma bind_returns:
  "py_bind m k s = (Inr b, s', t) \<Longrightarrow>
     \<exists>a s1 t1 t2. m s = (Inr a, s1, t1) \<and> k a s1 = (Inr b, s', t2) \<and> t = t1 @ t2"
  by (auto simp: py_bind_def split: prod.splits sum.splits)

lemma seq_returns:
  "py_seq m k s = (Inr b, s', t) \<Longrightarrow>
     \<exists>a s1 t1 t2. m s = (Inr a, s1, t1) \<and> k s1 = (Inr b, s', t2) \<and> t = t1 @ t2"
  by (auto simp: py_seq_def dest: bind_returns)

lemma call_returns:
  "call run c s = (Inr a, s', t) \<Longrightarrow> t = [(c, None)]"
  by (auto simp: call_def py_outcome_def split: prod.splits)

lemma list_cameras_cmds:
  assumes "list_cameras h s = (r, s', t)"
  shows "\<exists>x t'. t = (Ls_camera, x) # t' \<and> list_all (\<lambda>e. list_cmd (fst e)) t'"
proof -
  from assms issues_list_cameras have "list_all (\<lambda>e. list_cmd (fst e)) t"
    unfolding issues_def by blast
  then show ?thesis using list_cameras_first [OF assms] by auto
qed

lemma bind_cases:
  "py_bind m k s = (r, s', t) \<Longrightarrow>
     (\<exists>e. m s = (Inl e, s', t) \<and> r = Inl e)
     \<or> (\<exists>a s1 t1 t2. m s = (Inr a, s1, t1) \<and> k a s1 = (r, s', t2) \<and> t = t1 @ t2)"
  by (auto simp: py_bind_def split: prod.splits sum.splits)

lemma seq_cases:
  "py_seq m k s = (r, s', t) \<Longrightarrow>
     (\<exists>e. m s = (Inl e, s', t) \<and> r = Inl e)
     \<or> (\<exists>a s1 t1 t2. m s = (Inr a, s1, t1) \<and> k s1 = (r, s', t2) \<and> t = t1 @ t2)"
  unfolding py_seq_def by (drule bind_cases) simp

lemma try_cases:
  "py_try m C k s = (r, s', t) \<Longrightarrow>
     (\<exists>a. m s = (Inr a, s', t) \<and> r = Inr a)
     \<or> (\<exists>e. m s = (Inl e, s', t) \<and> r = Inl e \<and> \<not> C e)
     \<or> (\<exists>e s1 t1 t2. m s = (Inl e, s1, t1) \<and> C e \<and> k e s1 = (r, s', t2) \<and> t = t1 @ t2)"
  by (auto simp: py_try_def split: prod.splits sum.splits if_splits)

lemma call_cases:
  "call run c s = (r, s', t) \<Longrightarrow>
     \<exists>w'. run c (world s) = (r, w') \<and> s' = s\<lparr>world := w'\<rparr> \<and> t = [(c, py_outcome r)]"
  by (auto simp: call_def split: prod.splits)

lemma return_cases: "py_return a s = (r, s', t) \<Longrightarrow> r = Inr a \<and> s' = s \<and> t = []"
  by (auto simp: py_return_def)

lemma error_dialog_cases:
  "error_dialog h e s = (r, s', t) \<Longrightarrow>
     \<exists>x. t = [(error_dialog_cmd e, x)] \<and> r = (case x of None \<Rightarrow> Inr () | Some e' \<Rightarrow> Inl e')"
  unfolding error_dialog_def
  by (auto dest!: seq_cases call_cases return_cases simp: py_outcome_def)

lemma raise_cases: "py_raise e s = (r, s', t) \<Longrightarrow> r = Inl e \<and> s' = s \<and> t = []"
  by (auto simp: py_raise_def)

lemma subscript0_cases:
  "subscript0 v s = (r, s', t) \<Longrightarrow>
     s' = s \<and> t = [] \<and> (case r of Inl e \<Rightarrow> v = None \<or> v = Some [] | Inr x \<Rightarrow> (\<exists>xs. v = Some (x # xs)))"
  by (auto simp: subscript0_def py_raise_def py_return_def split: option.splits list.splits)

lemma iter_cases:
  "py_iter v s = (r, s', t) \<Longrightarrow>
     s' = s \<and> t = [] \<and> (case r of Inl e \<Rightarrow> v = None | Inr xs \<Rightarrow> v = Some xs)"
  by (auto simp: py_iter_def py_raise_def py_return_def split: option.splits)

lemma issues_error_dialog: "(\<And>e. K (error_dialog_cmd e)) \<Longrightarrow> issues K (error_dialog h e)"
  by (simp add: error_dialog_def issues_seq issues_call issues_return)

lemma no_edit_toggle: "issues (\<lambda>c. \<not> list_edit c) (toggle_lock_camera h)"
  unfolding toggle_lock_camera_def
  by (auto intro!: issues_intros issues_error_dialog simp: error_dialog_cmd_def
        split: option.splits list.splits)

lemma no_edit_export: "issues (\<lambda>c. \<not> list_edit c) (export_cameras h)"
  unfolding export_cameras_def
  by (auto intro!: issues_intros issues_error_dialog simp: error_dialog_cmd_def
        split: option.splits list.splits)

lemma no_edit_set_renderable: "issues (\<lambda>c. \<not> list_edit c) (set_renderable_camera h)"
  unfolding set_renderable_camera_def
  by (auto intro!: issues_intros issues_error_dialog simp: error_dialog_cmd_def
        split: option.splits list.splits)

lemma issues_trace_of: "issues K m \<Longrightarrow> list_all (\<lambda>e. K (fst e)) (trace_of (m s))"
  by (cases "m s") (auto simp: issues_def trace_of_def)

lemma no_edit_trace:
  "issues (\<lambda>c. \<not> list_edit c) m \<Longrightarrow> \<not> list_ex list_edit (map fst (trace_of (m s)))"
  using issues_trace_of [of "\<lambda>c. \<not> list_edit c" m s] by (simp add: list_all_iff list_ex_iff)

lemmas eval_defs = handler_defs list_cameras_def run_defs script_defs

lemma toggle_run_scene0:
  "toggle_lock_camera scripted_host (start scene0) =
     (Inr (), start (scene0\<lparr>sc_locked := []\<rparr>),
      [(TextScrollList_selectItem, None),
       (GetAttr_lock ''cam1.translateX'', None),
       (SetAttr_lock ''cam1.translateX'' False, None),
       (SetAttr_lock ''cam1.translateY'' False, None),
       (SetAttr_lock ''cam1.translateZ'' False, None),
       (SetAttr_lock ''cam1.rotateX'' False, None),
       (SetAttr_lock ''cam1.rotateY'' False, None),
       (SetAttr_lock ''cam1.rotateZ'' False, None),
       (SetAttr_lock ''cam1.scaleX'' False, None),
       (SetAttr_lock ''cam1.scaleY'' False, None),
       (SetAttr_lock ''cam1.scaleZ'' False, None),
       (InViewMessage ''Camera <hl>cam1</hl> transforms unlocked'', None)])"
  by (simp add: eval_defs)

lemma list_cmd_mutations:
  "list_all (\<lambda>e. list_cmd (fst e)) t \<Longrightarrow> mutations t = []"
  unfolding mutations_def by (induction t) (auto elim: list_cmd.elims)

lemma list_cmd_no_message:
  "list_all (\<lambda>e. list_cmd (fst e)) t \<Longrightarrow> \<not> list_ex is_message (map fst t)"
  by (induction t) (auto elim: list_cmd.elims)

lemma mutations_append: "mutations (t1 @ t2) = mutations t1 @ mutations t2"
  by (simp add: mutations_def)

lemma mutations_Cons:
  "mutations (e # t) = (if mutating (fst e) then e # mutations t else mutations t)"
  by (simp add: mutations_def)

lemma mutations_Nil: "mutations [] = []"
  by (simp add: mutations_def)

lemmas exec_cases = bind_cases seq_cases try_cases call_cases return_cases raise_cases
  error_dialog_cases subscript0_cases iter_cases

lemmas mut_simps = mutations_append mutations_Cons mutations_Nil list_cmd_mutations
  list_cmd_no_message py_outcome_def error_dialog_cmd_def

lemma count_create: "length (mutations (trace_of (create_camera h s))) = 1"
proof -
  obtain r s' t where run: "create_camera h s = (r, s', t)"
    by (cases "create_camera h s") auto
  from run have "length (mutations t) = 1"
    unfolding create_camera_def
    by (auto dest!: exec_cases list_cameras_cmds simp: mut_simps)
  with run show ?thesis by (simp add: trace_of_def)
qed

lemma count_list_cameras: "mutations (trace_of (list_cameras h s)) = []"
  using issues_trace_of [OF issues_list_cameras, of h s] by (simp add: list_cmd_mutations)

lemma count_delete:
  "length (mutations (trace_of (delete_camera h s))) \<le> 1"
proof -
  obtain r s' t where run: "delete_camera h s = (r, s', t)"
    by (cases "delete_camera h s") auto
  from run have "length (mutations t) \<le> 1"
    unfolding delete_camera_def
    by (auto dest!: exec_cases list_cameras_cmds simp: mut_simps
          split: option.splits list.splits if_splits sum.splits)
  with run show ?thesis by (simp add: trace_of_def)
qed

lemma count_rename:
  "length (mutations (trace_of (rename_camera h s))) \<le> 1"
proof -
  obtain r s' t where run: "rename_camera h s = (r, s', t)"
    by (cases "rename_camera h s") auto
  from run have "length (mutations t) \<le> 1"
    unfolding rename_camera_def
    by (auto dest!: exec_cases list_cameras_cmds simp: mut_simps
          split: option.splits list.splits if_splits sum.splits)
  with run show ?thesis by (simp add: trace_of_def)
qed

lemma count_import:
  "length (mutations (trace_of (import_cameras h s))) \<le> 1
   \<and> (list_ex is_message (map fst (trace_of (import_cameras h s)))
        \<longrightarrow> length (mutations (trace_of (import_cameras h s))) = 1)"
proof -
  obtain r s' t where run: "import_cameras h s = (r, s', t)"
    by (cases "import_cameras h s") auto
  from run have "length (mutations t) \<le> 1
      \<and> (list_ex is_message (map fst t) \<longrightarrow> length (mutations t) = 1)"
    unfolding import_cameras_def
    by (auto dest!: exec_cases list_cameras_cmds simp: mut_simps
          split: option.splits list.splits if_splits sum.splits)
  with run show ?thesis by (simp add: trace_of_def)
qed

lemma count_export:
  "length (mutations (trace_of (export_cameras h s))) \<le> 2
   \<and> (list_ex is_message (map fst (trace_of (export_cameras h s)))
        \<longrightarrow> length (mutations (trace_of (export_cameras h s))) = 2)"
proof -
  obtain r s' t where run: "export_cameras h s = (r, s', t)"
    by (cases "export_cameras h s") auto
  from run have "length (mutations t) \<le> 2
      \<and> (list_ex is_message (map fst t) \<longrightarrow> length (mutations t) = 2)"
    unfolding export_cameras_def
    by (auto dest!: exec_cases simp: mut_simps
          split: option.splits list.splits if_splits sum.splits)
  with run show ?thesis by (simp add: trace_of_def)
qed

lemma count_duplicate:
  "length (mutations (trace_of (duplicate_camera h s))) \<le> 2
   \<and> (list_ex is_message (map fst (trace_of (duplicate_camera h s)))
        \<longrightarrow> length (mutations (trace_of (duplicate_camera h s))) = 2)"
proof -
  obtain r s' t where run: "duplicate_camera h s = (r, s', t)"
    by (cases "duplicate_camera h s") auto
  from run have "length (mutations t) \<le> 2
      \<and> (list_ex is_message (map fst t) \<longrightarrow> length (mutations t) = 2)"
    unfolding duplicate_camera_def
    by (auto dest!: exec_cases list_cameras_cmds simp: mut_simps
          split: option.splits list.splits if_splits sum.splits)
  with run show ?thesis by (simp add: trace_of_def)
qed

lemma count_show: "mutations (trace_of (show_camera_info h s)) = []"
proof -
  obtain r s' t where run: "show_camera_info h s = (r, s', t)"
    by (cases "show_camera_info h s") auto
  from run have "mutations t = []"
    unfolding show_camera_info_def
    by (auto dest!: exec_cases simp: mut_simps
          split: option.splits list.splits if_splits sum.splits)
  with run show ?thesis by (simp add: trace_of_def)
qed

lemma count_toggle:
  "length (mutations (trace_of (toggle_lock_camera h s))) \<le> 9
   \<and> (list_ex is_message (map fst (trace_of (toggle_lock_camera h s)))
        \<longrightarrow> length (mutations (trace_of (toggle_lock_camera h s))) = 9)"
proof -
  obtain r s' t where run: "toggle_lock_camera h s = (r, s', t)"
    by (cases "toggle_lock_camera h s") auto
  from run have "length (mutations t) \<le> 9
      \<and> (list_ex is_message (map fst t) \<longrightarrow> length (mutations t) = 9)"
    unfolding toggle_lock_camera_def
    by (auto dest!: exec_cases simp: mut_simps
          split: option.splits list.splits if_splits sum.splits)
  with run show ?thesis by (simp add: trace_of_def)
qed

lemma reset_loop_trace:
  "py_for shapes (\<lambda>cam_shape.
       py_try (call run (SetAttr (cam_shape @ ''.renderable'') 0)) C (\<lambda>e. py_return ()))
     s = (r, s', t)
   \<Longrightarrow> length t \<le> length shapes"
proof (induction shapes arbitrary: s r s' t)
  case Nil
  then show ?case by (auto dest!: return_cases)
next
  case (Cons x xs)
  from Cons.prems show ?case
    by (auto dest!: bind_cases try_cases call_cases return_cases Cons.IH)
qed

lemma length_mutations: "length (mutations t) \<le> length t"
  by (simp add: mutations_def)

lemma count_set_renderable:
  assumes "run_list h TextScrollList_selectItem (world s) = (Inr sel, w1)"
    and "run_list h Ls_camera w1 = (Inr (Some shapes), w2)"
  shows "length (mutations (trace_of (set_renderable_camera h s))) \<le> Suc (length shapes)"
proof -
  obtain r s' t where run: "set_renderable_camera h s = (r, s', t)"
    by (cases "set_renderable_camera h s") auto
  have loop: "length (mutations t0) \<le> length shapes"
    if "py_for shapes (\<lambda>cam_shape.
       py_try (call (run_unit h) (SetAttr (cam_shape @ ''.renderable'') 0))
         isinstance_Exception (\<lambda>e. py_return ())) s0 = (r0, s0', t0)" for s0 r0 s0' t0
    using reset_loop_trace [OF that] length_mutations [of t0] by simp
  from run assms have "length (mutations t) \<le> Suc (length shapes)"
    unfolding set_renderable_camera_def
    by (auto dest!: exec_cases loop simp: mut_simps
          split: option.splits list.splits if_splits sum.splits)
  with run show ?thesis by (simp add: trace_of_def)
qed

lemma parents_comprehension:
  "py_listcomp shapes (\<lambda>c. py_bind (call (run_list h) (ListRelatives_parent c)) subscript0) s
     = (Inr ps, s', t)
   \<Longrightarrow> ps = first_parents h shapes (world s) \<and> length ps = length shapes
       \<and> t = map (\<lambda>c. (ListRelatives_parent c, None)) shapes"
proof (induction shapes arbitrary: s ps s' t)
  case Nil
  then show ?case by (auto dest!: return_cases)
next
  case (Cons c cs)
  from Cons.prems show ?case
    by (auto dest!: bind_returns call_cases subscript0_cases return_cases Cons.IH
          simp: py_outcome_def)
qed

lemma append_loop:
  "py_for ps (\<lambda>cam. call (run_unit h) (TextScrollList_append cam)) s = (Inr (), s', t)
   \<Longrightarrow> t = map (\<lambda>p. (TextScrollList_append p, None)) ps"
proof (induction ps arbitrary: s s' t)
  case Nil
  then show ?case by (auto dest!: return_cases)
next
  case (Cons p ps)
  from Cons.prems show ?case
    by (auto dest!: bind_returns call_cases Cons.IH simp: py_outcome_def)
qed

text \<open>
  C5 (amended): when \<open>list_cameras\<close> returns, it has queried the camera shapes, removed
  every entry of the scroll list, then looked up the transform parents of all shapes in
  the order of the listing, and only then appended the first parent of each shape, one
  entry per shape in the same order: two linear passes, and no other command.
\<close>

theorem list_cameras_two_passes:
  assumes "result_of (list_cameras h s) = Inr ()"
  shows "\<exists>shapes w1 w2.
           run_list h Ls_camera (world s) = (Inr (Some shapes), w1)
           \<and> run_unit h TextScrollList_removeAll w1 = (Inr (), w2)
           \<and> length (first_parents h shapes w2) = length shapes
           \<and> trace_of (list_cameras h s) =
               (Ls_camera, None) # (TextScrollList_removeAll, None)
                 # map (\<lambda>c. (ListRelatives_parent c, None)) shapes
                 @ map (\<lambda>p. (TextScrollList_append p, None)) (first_parents h shapes w2)"
proof -
  obtain s' t where run: "list_cameras h s = (Inr (), s', t)"
    using assms by (cases "list_cameras h s") (auto simp: result_of_def)
  from run show ?thesis
    unfolding run trace_of_def list_cameras_def
    by (auto dest!: bind_returns seq_returns call_cases iter_cases parents_comprehension
          append_loop simp: py_outcome_def)
qed

lemma list_run_scene0: "result_of (list_cameras scripted_host (start scene0)) = Inr ()"
  by (simp add: eval_defs)

theorem list_cameras_two_passes_witness:
  "result_of (list_cameras scripted_host (start scene0)) = Inr ()
   \<and> (\<exists>shapes w1 w2.
         run_list scripted_host Ls_camera (world (start scene0)) = (Inr (Some shapes), w1)
         \<and> run_unit scripted_host TextScrollList_removeAll w1 = (Inr (), w2)
         \<and> length (first_parents scripted_host shapes w2) = length shapes
         \<and> trace_of (list_cameras scripted_host (start scene0)) =
             (Ls_camera, None) # (TextScrollList_removeAll, None)
               # map (\<lambda>c. (ListRelatives_parent c, None)) shapes
               @ map (\<lambda>p. (TextScrollList_append p, None))
                   (first_parents scripted_host shapes w2))"
  using list_cameras_two_passes [OF list_run_scene0] list_run_scene0 by blast

text \<open>
  C5 as stated fails: the run of \<open>list_cameras\<close> on \<open>scene0\<close> looks up the parent of the
  second camera shape before it appends the parent of the first, where a single pass
  appends in between; and when the second lookup raises, \<open>list_cameras\<close> has appended
  nothing, where a single pass has appended the first camera.
\<close>

theorem list_cameras_is_not_single_pass:
  "trace_of (list_cameras scripted_host (start scene0)) =
     [(Ls_camera, None), (TextScrollList_removeAll, None),
      (ListRelatives_parent ''camShape1'', None), (ListRelatives_parent ''camShape2'', None),
      (TextScrollList_append ''cam1'', None), (TextScrollList_append ''cam2'', None)]
   \<and> trace_of (list_cameras_single_pass scripted_host (start scene0)) =
     [(Ls_camera, None), (TextScrollList_removeAll, None),
      (ListRelatives_parent ''camShape1'', None), (TextScrollList_append ''cam1'', None),
      (ListRelatives_parent ''camShape2'', None), (TextScrollList_append ''cam2'', None)]
   \<and> trace_of (list_cameras scripted_host (start scene0))
       \<noteq> trace_of (list_cameras_single_pass scripted_host (start scene0))
   \<and> filter list_edit (map fst (trace_of (list_cameras scripted_host (start scene_broken))))
       = [TextScrollList_removeAll]
   \<and> filter list_edit
         (map fst (trace_of (list_cameras_single_pass scripted_host (start scene_broken))))
       = [TextScrollList_removeAll, TextScrollList_append ''cam1'']"
  by (simp add: eval_defs list_cameras_single_pass_def scene_broken_def)

lemma scene_part_unit:
  "scene_part h f \<Longrightarrow> \<not> mutating c \<Longrightarrow> run_unit h c w = (r, w') \<Longrightarrow> f w' = f w"
  unfolding scene_part_def by (metis snd_conv)

lemma scene_part_str:
  "scene_part h f \<Longrightarrow> \<not> mutating c \<Longrightarrow> run_str h c w = (r, w') \<Longrightarrow> f w' = f w"
  unfolding scene_part_def by (metis snd_conv)


lemma scene_part_list:
  "scene_part h f \<Longrightarrow> \<not> mutating c \<Longrightarrow> run_list h c w = (r, w') \<Longrightarrow> f w' = f w"
  unfolding scene_part_def by (metis snd_conv)






lemma clean_Nil: "clean []"
  by (simp add: clean_def)












lemma attr_store_set:
  "attr_store h A \<Longrightarrow> run_unit h (SetAttr a v) w = (r, w')
   \<Longrightarrow> A w' = (case r of Inr _ \<Rightarrow> (A w)(a := v) | Inl _ \<Rightarrow> A w)"
  unfolding attr_store_def by blast

lemma attr_store_unit:
  "attr_store h A \<Longrightarrow> \<not> mutating c \<Longrightarrow> run_unit h c w = (r, w') \<Longrightarrow> A w' = A w"
  using scene_part_unit [of h A c w r w'] by (simp add: attr_store_def)

lemma attr_store_str:
  "attr_store h A \<Longrightarrow> \<not> mutating c \<Longrightarrow> run_str h c w = (r, w') \<Longrightarrow> A w' = A w"
  using scene_part_str [of h A c w r w'] by (simp add: attr_store_def)

lemma attr_store_list:
  "attr_store h A \<Longrightarrow> \<not> mutating c \<Longrightarrow> run_list h c w = (r, w') \<Longrightarrow> A w' = A w"
  using scene_part_list [of h A c w r w'] by (simp add: attr_store_def)

lemma reset_loop_attrs:
  assumes as: "attr_store h A"
  shows "py_for shapes (\<lambda>c.
       py_try (call (run_unit h) (SetAttr (c @ ''.renderable'') 0))
         isinstance_Exception (\<lambda>e. py_return ())) s = (r, s', t)
    \<Longrightarrow> A (world s') = (\<lambda>a. if (SetAttr a 0, None) \<in> set t then 0 else A (world s) a)
        \<and> (\<forall>e \<in> set t. \<exists>c \<in> set shapes. fst e = SetAttr (c @ ''.renderable'') 0)"
proof (induction shapes arbitrary: s r s' t)
  case Nil
  then show ?case by (auto dest!: return_cases)
next
  case (Cons x xs)
  let ?body = "\<lambda>c. py_try (call (run_unit h) (SetAttr (c @ ''.renderable'') 0))
         isinstance_Exception (\<lambda>e. py_return ())"
  have step: "A (world s1) = (\<lambda>a. if (SetAttr a 0, None) \<in> set t1 then 0 else A (world s) a)
      \<and> (\<forall>e \<in> set t1. fst e = SetAttr (x @ ''.renderable'') 0)"
    if "?body x s = (r1, s1, t1)" for r1 s1 t1
  proof -
    from that obtain rc w1 where c: "run_unit h (SetAttr (x @ ''.renderable'') 0) (world s)
        = (rc, w1)" "s1 = s\<lparr>world := w1\<rparr>"
      "t1 = [(SetAttr (x @ ''.renderable'') 0, py_outcome rc)]"
      by (auto dest!: try_cases call_cases return_cases)
    from attr_store_set [OF as c(1)] c(2,3) show ?thesis
      by (cases rc) (auto simp: py_outcome_def fun_eq_iff)
  qed
  from Cons.prems consider
    (stop) e where "?body x s = (Inl e, s', t)"
    | (go) a s1 t1 t2 where "?body x s = (Inr a, s1, t1)"
        "py_for xs ?body s1 = (r, s', t2)" "t = t1 @ t2"
    by (auto dest!: bind_cases)
  then show ?case
  proof cases
    case stop
    from step [OF stop] show ?thesis by auto
  next
    case go
    from step [OF go(1)] Cons.IH [OF go(2)] go(3) show ?thesis
      by (auto simp: fun_eq_iff)
  qed
qed

lemma final_block:
  assumes as: "attr_store h A"
    and run: "py_try
       (py_bind (py_bind (call (run_list h) (ListRelatives_shapes cam)) subscript0)
          (\<lambda>cam_shape.
        py_seq (call (run_unit h) (SetAttr (cam_shape @ ''.renderable'') 1)) (
        call (run_unit h) (InViewMessage m))))
       isinstance_Exception (error_dialog h) s = (r, s', t)"
    and ok: "(SetAttr (cs @ ''.renderable'') 1, None) \<in> set t"
  shows "A (world s') = (A (world s))(cs @ ''.renderable'' := 1)
         \<and> (\<exists>w w' ss. run_list h (ListRelatives_shapes cam) w = (Inr (Some (cs # ss)), w'))
         \<and> (\<forall>e \<in> set t. \<forall>a. fst e \<noteq> SetAttr a 0)"
proof -
  let ?rest = "\<lambda>cam_shape.
        py_seq (call (run_unit h) (SetAttr (cam_shape @ ''.renderable'') 1)) (
        call (run_unit h) (InViewMessage m))"
  let ?body = "py_bind (py_bind (call (run_list h) (ListRelatives_shapes cam)) subscript0) ?rest"
  obtain rb sb tb where body: "?body s = (rb, sb, tb)" by (cases "?body s") auto
  from run body consider
    (plain) "s' = sb" "t = tb"
    | (caught) e t2 where "error_dialog h e sb = (r, s', t2)" "t = tb @ t2"
    by (auto dest!: try_cases)
  then have tail: "A (world s') = A (world sb) \<and> (SetAttr (cs @ ''.renderable'') 1, None) \<in> set tb
      \<and> (\<forall>e \<in> set t. \<forall>a. fst e \<noteq> SetAttr a 0) = (\<forall>e \<in> set tb. \<forall>a. fst e \<noteq> SetAttr a 0)"
  proof cases
    case plain
    with ok show ?thesis by simp
  next
    case caught
    from error_dialog_cases [OF caught(1)] obtain x where
      t2: "t2 = [(error_dialog_cmd e, x)]" by blast
    from caught(1) obtain rd wd where d: "run_str h (error_dialog_cmd e) (world sb) = (rd, wd)"
      "world s' = wd"
      unfolding error_dialog_def
      by (auto dest!: seq_cases call_cases return_cases)
    from attr_store_str [OF as _ d(1)] d(2) have "A (world s') = A (world sb)"
      by (simp add: error_dialog_cmd_def)
    with caught(2) t2 ok show ?thesis by (auto simp: error_dialog_cmd_def)
  qed
  from bind_cases [OF body] consider
    (stop) e where "py_bind (call (run_list h) (ListRelatives_shapes cam)) subscript0 s
        = (Inl e, sb, tb)"
    | (go) c s1 t1 t2 where
        "py_bind (call (run_list h) (ListRelatives_shapes cam)) subscript0 s = (Inr c, s1, t1)"
        "?rest c s1 = (rb, sb, t2)" "tb = t1 @ t2"
    by blast
  then show ?thesis
  proof cases
    case stop
    then have "\<forall>e \<in> set tb. fst e = ListRelatives_shapes cam"
      by (auto dest!: bind_cases call_cases subscript0_cases)
    with tail show ?thesis by auto
  next
    case go
    from go(1) obtain ss w1 where lr: "run_list h (ListRelatives_shapes cam) (world s)
        = (Inr (Some (c # ss)), w1)" "s1 = s\<lparr>world := w1\<rparr>"
      "t1 = [(ListRelatives_shapes cam, None)]"
      by (auto dest!: bind_cases call_cases subscript0_cases simp: py_outcome_def)
    from attr_store_list [OF as _ lr(1)] have A1: "A w1 = A (world s)" by simp
    from go(2) consider
      (stop2) e where "call (run_unit h) (SetAttr (c @ ''.renderable'') 1) s1 = (Inl e, sb, t2)"
      | (go2) a s2 t3 t4 where
          "call (run_unit h) (SetAttr (c @ ''.renderable'') 1) s1 = (Inr a, s2, t3)"
          "call (run_unit h) (InViewMessage m) s2 = (rb, sb, t4)" "t2 = t3 @ t4"
      by (auto dest!: seq_cases)
    then show ?thesis
    proof cases
      case stop2
      then have "t2 = [(SetAttr (c @ ''.renderable'') 1, Some e)]"
        by (auto dest!: call_cases simp: py_outcome_def)
      with tail go(3) lr(3) show ?thesis by auto
    next
      case go2
      from go2(1) lr(2) obtain w2 where st: "run_unit h (SetAttr (c @ ''.renderable'') 1) w1
          = (Inr (), w2)" "s2 = s\<lparr>world := w2\<rparr>"
        "t3 = [(SetAttr (c @ ''.renderable'') 1, None)]"
        by (auto dest!: call_cases simp: py_outcome_def)
      from go2(2) st(2) obtain w3 where ms: "run_unit h (InViewMessage m) w2 = (rb, w3)"
        "sb = s\<lparr>world := w3\<rparr>" "t4 = [(InViewMessage m, py_outcome rb)]"
        by (auto dest!: call_cases)
      from tail go(3) go2(3) lr(3) st(3) ms(3) have eq: "cs = c" by auto
      from attr_store_set [OF as st(1)] A1 have A2: "A w2 = (A (world s))(c @ ''.renderable'' := 1)"
        by simp
      from attr_store_unit [OF as _ ms(1)] A2 ms(2)
      have "A (world sb) = (A (world s))(c @ ''.renderable'' := 1)" by simp
      with tail eq lr(1) go(3) go2(3) lr(3) st(3) ms(3) show ?thesis by auto
    qed
  qed
qed

lemma attr_store_scripted: "attr_store scripted_host sc_attr_of"
  unfolding attr_store_def
proof (intro conjI allI impI)
  show "scene_part scripted_host sc_attr_of"
    using scene_part_scripted by (simp add: scene_part_def)
next
  fix a v w r w'
  assume "run_unit scripted_host (SetAttr a v) w = (r, w')"
  then show "sc_attr_of w' = (case r of Inl x \<Rightarrow> sc_attr_of w | Inr x \<Rightarrow> (sc_attr_of w)(a := v))"
    by (auto simp: scripted_host_def sc_run_def sc_attr_of_def fun_eq_iff
          split: option.splits if_splits)
qed

section \<open>Refreshing the list after a change\<close>

lemma after_success_append:
  "list_all (\<lambda>e. \<not> P (fst e)) t1 \<Longrightarrow> after_success P (t1 @ t2) = after_success P t2"
  by (induction t1) auto

lemma after_success_none: "list_all (\<lambda>e. \<not> P (fst e)) t \<Longrightarrow> after_success P t = None"
  using after_success_append [of P t "[]"] by simp

lemma calls_intro_unit:
  "list_cameras h s1 = (r, s2, t2) \<Longrightarrow> globals s1 = globals s \<Longrightarrow> completes op c
   \<Longrightarrow> run_unit h c w0 = (Inr (), world s1) \<Longrightarrow> calls_list_cameras h s op (t2 @ rest)"
  unfolding calls_list_cameras_def trace_of_def
  by (rule exI [of _ s1], rule exI [of _ rest], rule exI [of _ c], rule exI [of _ w0]) simp

lemma calls_intro_str:
  "list_cameras h s1 = (r, s2, t2) \<Longrightarrow> globals s1 = globals s \<Longrightarrow> completes op c
   \<Longrightarrow> run_str h c w0 = (Inr a, world s1) \<Longrightarrow> calls_list_cameras h s op (t2 @ rest)"
  unfolding calls_list_cameras_def trace_of_def
  by (rule exI [of _ s1], rule exI [of _ rest], rule exI [of _ c], rule exI [of _ w0]) auto

lemma calls_create:
  "after_success (completes Create_camera) (trace_of (create_camera h s)) = Some post
   \<Longrightarrow> calls_list_cameras h s Create_camera post"
proof -
  assume a: "after_success (completes Create_camera) (trace_of (create_camera h s)) = Some post"
  obtain r s' t where run: "create_camera h s = (r, s', t)"
    by (cases "create_camera h s") auto
  from run consider
    (stop) e where "call (run_unit h) Camera s = (Inl e, s', t)"
    | (go) u s1 t1 t2 where "call (run_unit h) Camera s = (Inr u, s1, t1)"
        "list_cameras h s1 = (r, s', t2)" "t = t1 @ t2"
    unfolding create_camera_def by (auto dest!: seq_cases)
  then show ?thesis
  proof cases
    case stop
    with a run show ?thesis by (auto dest!: call_cases simp: trace_of_def py_outcome_def)
  next
    case go
    from go(1) obtain w1 where c: "run_unit h Camera (world s) = (Inr (), w1)"
      "s1 = s\<lparr>world := w1\<rparr>" "t1 = [(Camera, None)]"
      by (auto dest!: call_cases simp: py_outcome_def)
    from a run go(3) c(3) have "post = t2 @ []" by (simp add: trace_of_def)
    with calls_intro_unit [OF go(2), of s Create_camera Camera "world s" "[]"] c
    show ?thesis by simp
  qed
qed


lemma calls_unit:
  "list_cameras h s1 = (r, s2, t2) \<Longrightarrow> run_unit h c w0 = (Inr (), w1) \<Longrightarrow> world s1 = w1
   \<Longrightarrow> globals s1 = globals s \<Longrightarrow> completes op c
   \<Longrightarrow> calls_list_cameras h s op (t2 @ rest)"
  using calls_intro_unit [of h s1 r s2 t2 s op c w0 rest] by simp

lemma calls_unit0:
  "list_cameras h s1 = (r, s2, t2) \<Longrightarrow> run_unit h c w0 = (Inr (), w1) \<Longrightarrow> world s1 = w1
   \<Longrightarrow> globals s1 = globals s \<Longrightarrow> completes op c
   \<Longrightarrow> calls_list_cameras h s op t2"
  using calls_intro_unit [of h s1 r s2 t2 s op c w0 "[]"] by simp

lemma calls_str:
  "list_cameras h s1 = (r, s2, t2) \<Longrightarrow> run_str h c w0 = (Inr a, w1) \<Longrightarrow> world s1 = w1
   \<Longrightarrow> globals s1 = globals s \<Longrightarrow> completes op c
   \<Longrightarrow> calls_list_cameras h s op (t2 @ rest)"
  using calls_intro_str [of h s1 r s2 t2 s op c w0 a rest] by simp

lemma calls_str0:
  "list_cameras h s1 = (r, s2, t2) \<Longrightarrow> run_str h c w0 = (Inr a, w1) \<Longrightarrow> world s1 = w1
   \<Longrightarrow> globals s1 = globals s \<Longrightarrow> completes op c
   \<Longrightarrow> calls_list_cameras h s op t2"
  using calls_intro_str [of h s1 r s2 t2 s op c w0 a "[]"] by simp

lemma calls_delete:
  assumes a: "after_success (completes Delete_camera) (trace_of (delete_camera h s)) = Some post"
  shows "calls_list_cameras h s Delete_camera post"
proof -
  obtain r s' t where run: "delete_camera h s = (r, s', t)"
    by (cases "delete_camera h s") auto
  from a run have "after_success (completes Delete_camera) t = Some post"
    by (simp add: trace_of_def)
  with run show ?thesis
    unfolding delete_camera_def
    apply (auto dest!: bind_cases seq_cases try_cases call_cases return_cases
        error_dialog_cases subscript0_cases
        simp: py_outcome_def error_dialog_cmd_def
        split: option.splits list.splits if_splits sum.splits)
       apply ((rule calls_unit0 calls_unit), assumption, assumption, simp, simp, simp)+
    done
qed

lemma calls_rename:
  assumes a: "after_success (completes Rename_camera) (trace_of (rename_camera h s)) = Some post"
  shows "calls_list_cameras h s Rename_camera post"
proof -
  obtain r s' t where run: "rename_camera h s = (r, s', t)"
    by (cases "rename_camera h s") auto
  from a run have "after_success (completes Rename_camera) t = Some post"
    by (simp add: trace_of_def)
  with run show ?thesis
    unfolding rename_camera_def
    apply (auto dest!: bind_cases seq_cases try_cases call_cases return_cases
        error_dialog_cases subscript0_cases
        simp: py_outcome_def error_dialog_cmd_def
        split: option.splits list.splits if_splits sum.splits)
       apply ((rule calls_str0 calls_str), assumption, assumption, simp, simp, simp)+
    done
qed

lemma calls_import:
  assumes a: "after_success (completes Import_cameras) (trace_of (import_cameras h s)) = Some post"
  shows "calls_list_cameras h s Import_cameras post"
proof -
  obtain r s' t where run: "import_cameras h s = (r, s', t)"
    by (cases "import_cameras h s") auto
  from a run have "after_success (completes Import_cameras) t = Some post"
    by (simp add: trace_of_def)
  with run show ?thesis
    unfolding import_cameras_def
    apply (auto dest!: bind_cases seq_cases try_cases call_cases return_cases
        error_dialog_cases subscript0_cases
        simp: py_outcome_def error_dialog_cmd_def
        split: option.splits list.splits if_splits sum.splits)
       apply ((rule calls_unit0 calls_unit), assumption, assumption, simp, simp, simp)+
    done
qed

lemma calls_duplicate:
  assumes a: "after_success (completes Duplicate_camera) (trace_of (duplicate_camera h s)) = Some post"
  shows "calls_list_cameras h s Duplicate_camera post"
proof -
  obtain r s' t where run: "duplicate_camera h s = (r, s', t)"
    by (cases "duplicate_camera h s") auto
  from a run have "after_success (completes Duplicate_camera) t = Some post"
    by (simp add: trace_of_def)
  with run show ?thesis
    unfolding duplicate_camera_def
    apply (auto dest!: bind_cases seq_cases try_cases call_cases return_cases
        error_dialog_cases subscript0_cases
        simp: py_outcome_def error_dialog_cmd_def
        split: option.splits list.splits if_splits sum.splits)
       apply ((rule calls_str0 calls_str), assumption, assumption, simp, simp, simp)+
    done
qed


text \<open>
  C1 (amended): in every run of \<open>create_camera\<close>, \<open>delete_camera\<close>, \<open>rename_camera\<close>,
  \<open>import_cameras\<close> and \<open>duplicate_camera\<close>, once the command that completes the
  change of the scene has succeeded (\<open>camera\<close>, \<open>delete\<close>, \<open>rename\<close>, the file import,
  and for \<open>duplicate_camera\<close> the rename of the copy), the handler calls \<open>list_cameras\<close>
  at once: what follows in the trace begins with the whole run of \<open>list_cameras\<close> from
  the host state that the command has left. \<open>toggle_lock_camera\<close>, \<open>export_cameras\<close>
  and \<open>set_renderable_camera\<close> never edit the camera list.
\<close>

theorem refresh_after_mutation:
  "(op \<in> {Create_camera, Delete_camera, Rename_camera, Import_cameras, Duplicate_camera}
      \<longrightarrow> (\<forall>post. after_success (completes op) (trace_of (dispatch op h s)) = Some post
             \<longrightarrow> calls_list_cameras h s op post))
   \<and> (op \<in> {Toggle_lock_camera, Export_cameras, Set_renderable_camera}
      \<longrightarrow> \<not> list_ex list_edit (map fst (trace_of (dispatch op h s))))"
  using calls_create [of h s] calls_delete [of h s] calls_rename [of h s]
    calls_import [of h s] calls_duplicate [of h s]
    no_edit_trace [OF no_edit_toggle, of h s] no_edit_trace [OF no_edit_export, of h s]
    no_edit_trace [OF no_edit_set_renderable, of h s]
  by auto

lemma delete_run_scene0:
  "trace_of (dispatch Delete_camera scripted_host (start scene0)) =
     [(TextScrollList_selectItem, None),
      (ConfirmDialog ''Delete Camera?'' ''Are you sure you want to delete camera: cam1?''
         [''Yes'', ''No''] (Some ''No'') (Some ''No'') ''warning'', None),
      (Delete ''cam1'', None),
      (Ls_camera, None),
      (TextScrollList_removeAll, None),
      (ListRelatives_parent ''camShape1'', None),
      (ListRelatives_parent ''camShape2'', None),
      (TextScrollList_append ''cam1'', None),
      (TextScrollList_append ''cam2'', None)]"
  by (simp add: eval_defs)

theorem refresh_after_mutation_witness:
  "after_success (completes Delete_camera)
       (trace_of (dispatch Delete_camera scripted_host (start scene0)))
     = Some [(Ls_camera, None),
          (TextScrollList_removeAll, None),
          (ListRelatives_parent ''camShape1'', None),
          (ListRelatives_parent ''camShape2'', None),
          (TextScrollList_append ''cam1'', None),
          (TextScrollList_append ''cam2'', None)]
   \<and> calls_list_cameras scripted_host (start scene0) Delete_camera
        [(Ls_camera, None),
         (TextScrollList_removeAll, None),
         (ListRelatives_parent ''camShape1'', None),
         (ListRelatives_parent ''camShape2'', None),
         (TextScrollList_append ''cam1'', None),
         (TextScrollList_append ''cam2'', None)]
   \<and> \<not> list_ex list_edit
          (map fst (trace_of (dispatch Toggle_lock_camera scripted_host (start scene0))))"
  using refresh_after_mutation [of Delete_camera scripted_host "start scene0"]
    refresh_after_mutation [of Toggle_lock_camera scripted_host "start scene0"]
    delete_run_scene0
  by simp

text \<open>
  C1 as stated fails. On \<open>scene0\<close> all nine \<open>setAttr\<close> commands of \<open>toggle_lock_camera\<close>
  succeed and the handler returns, having issued no command of \<open>list_cameras\<close>. And
  when the copy cannot be renamed, \<open>duplicate_camera\<close> has duplicated the camera and
  shows the error, having issued no command of \<open>list_cameras\<close>.
\<close>

theorem toggle_lock_does_not_refresh:
  "result_of (toggle_lock_camera scripted_host (start scene0)) = Inr ()
   \<and> mutating (SetAttr_lock ''cam1.translateX'' False)
   \<and> (SetAttr_lock ''cam1.translateX'' False, None)
        \<in> set (trace_of (toggle_lock_camera scripted_host (start scene0)))
   \<and> \<not> list_ex list_cmd (map fst (trace_of (toggle_lock_camera scripted_host (start scene0))))
   \<and> trace_of (duplicate_camera scripted_host (start scene_copy_fixed)) =
       [(TextScrollList_selectItem, None),
        (Duplicate ''cam1'', None),
        (Rename ''cam11'' ''cam1_copy#'', Some (RuntimeError, ''Cannot rename a read only node.'')),
        (ConfirmDialog ''Error'' ''Cannot rename a read only node.'' [''OK''] None None
           ''critical'', None)]
   \<and> mutating (Duplicate ''cam1'')"
  by (simp add: toggle_run_scene0 result_of_def trace_of_def)
     (simp add: eval_defs scene_copy_fixed_def isinstance_Exception_def error_dialog_cmd_def
        str_exn_def)

end
